theory Spec2Isabelle
  imports Complex_Main "HOL-Library.Signed_Division" "HOL-Library.Sublist" "HOL-Library.Log_Nat"
begin

section \<open>JavaScript values\<close>

text \<open>
  The engine is written in JavaScript. On-chain amounts, fees and gas are BigInt values
  (\<open>21000n\<close>, results of \<open>ethers.parseUnits\<close>): they are modelled as \<open>int\<close>, and
  BigInt division, which truncates towards zero, as \<open>sdiv\<close>. USD figures, percentages and
  z-scores are Numbers (IEEE doubles). The z-score engine, the Profit Accountant's
  simulation and the orchestrator compute them in \<open>js_double\<close> below, with the rounding of
  every operation; the scanner's own figures, which only pass through comparisons with
  absent properties, are kept as \<open>real\<close>. Mixing a BigInt and a Number in \<open>+ - * /\<close> raises
  a TypeError in JavaScript, and so it does here.
\<close>

datatype js_error = TypeError | RangeError | Error string

datatype js_numeric = BigInt int | Number real


section \<open>Numbers: IEEE 754 binary64\<close>

text \<open>
  A finite double is \<open>Double m e\<close>, the rational \<open>m * 2 ^ e\<close>, kept with \<open>m\<close> odd (or
  \<open>Double 0 0\<close> for zero) so that equal values are equal terms. The sign of zero is not
  kept: no comparison, truth test or arithmetic operation modelled in this file can tell
  \<open>-0\<close> from \<open>+0\<close> (that takes a division of a non-zero Number by zero, which the modelled
  code guards against).
\<close>

datatype js_double = Double int int | PlusInfinity | MinusInfinity | NotANumber

definition pow2 :: "int \<Rightarrow> int" where
  "pow2 k = 2 ^ nat k"

function strip_zeros :: "int \<Rightarrow> int \<Rightarrow> int \<times> int" where
  "strip_zeros m e = (if m \<noteq> 0 \<and> even m then strip_zeros (m div 2) (e + 1) else (m, e))"
  by pat_completeness auto
termination
  by (relation "measure (\<lambda>(m, e). nat \<bar>m\<bar>)") auto

definition normal_double :: "int \<Rightarrow> int \<Rightarrow> js_double" where
  "normal_double m e =
     (if m = 0 then Double 0 0 else case strip_zeros m e of (m', e') \<Rightarrow> Double m' e')"

text \<open>
  Rounding to nearest, ties to even. \<open>round_double n d x\<close> is the double nearest to the
  rational \<open>(n / d) * 2 ^ x\<close>, for \<open>d > 0\<close>: \<open>floor_log2\<close> finds the binary exponent of
  \<open>\<bar>n\<bar> / d\<close>, the significand keeps 53 bits, or fewer below \<open>2 ^ -1022\<close> where the spacing
  stays \<open>2 ^ -1074\<close> (subnormal numbers), and a result of \<open>2 ^ 1024\<close> or more is infinite.
\<close>

definition floor_log2 :: "int \<Rightarrow> int \<Rightarrow> int" where
  "floor_log2 a d =
     (let k = bitlen a - bitlen d
      in if (if 0 \<le> k then d * pow2 k \<le> a else d \<le> a * pow2 (- k)) then k else k - 1)"

definition round_half_even :: "int \<Rightarrow> int \<Rightarrow> int" where
  "round_half_even num den =
     (let q = num div den; r = num mod den
      in if 2 * r < den then q
         else if den < 2 * r then q + 1
         else if even q then q else q + 1)"

definition round_double :: "int \<Rightarrow> int \<Rightarrow> int \<Rightarrow> js_double" where
  "round_double n d x =
     (if n = 0 then Double 0 0
      else (let a = \<bar>n\<bar>;
                e = max (floor_log2 a d + x - 52) (- 1074);
                s = x - e;
                m = (if 0 \<le> s then round_half_even (a * pow2 s) d
                     else round_half_even a (d * pow2 (- s)))
            in if 1024 < bitlen m + e
               then (if 0 < n then PlusInfinity else MinusInfinity)
               else normal_double (sgn n * m) e))"

text \<open>
  A decimal literal of the source (\<open>0.7\<close> is \<open>decimal 7 1\<close>), an integer Number such as an
  array length, and \<open>Number(ethers.formatUnits(v, k))\<close>, which prints \<open>v / 10 ^ k\<close> exactly and
  reads the string back as the nearest double.
\<close>

definition decimal :: "int \<Rightarrow> nat \<Rightarrow> js_double" where
  "decimal n k = round_double n (10 ^ k) 0"

definition number_of_int :: "int \<Rightarrow> js_double" where
  "number_of_int n = round_double n 1 0"

definition Number_formatUnits :: "int \<Rightarrow> nat \<Rightarrow> js_double" where
  "Number_formatUnits v k = round_double v (10 ^ k) 0"

text \<open>The arithmetic operators: the exact result, rounded.\<close>

fun number_negate :: "js_double \<Rightarrow> js_double" where
  "number_negate (Double m e) = Double (- m) e"
| "number_negate PlusInfinity = MinusInfinity"
| "number_negate MinusInfinity = PlusInfinity"
| "number_negate NotANumber = NotANumber"

fun number_sign :: "js_double \<Rightarrow> int" where
  "number_sign (Double m e) = sgn m"
| "number_sign PlusInfinity = 1"
| "number_sign MinusInfinity = - 1"
| "number_sign NotANumber = 0"

fun number_add :: "js_double \<Rightarrow> js_double \<Rightarrow> js_double" where
  "number_add (Double m1 e1) (Double m2 e2) =
     (let e = min e1 e2 in round_double (m1 * pow2 (e1 - e) + m2 * pow2 (e2 - e)) 1 e)"
| "number_add NotANumber y = NotANumber"
| "number_add x NotANumber = NotANumber"
| "number_add PlusInfinity MinusInfinity = NotANumber"
| "number_add MinusInfinity PlusInfinity = NotANumber"
| "number_add PlusInfinity y = PlusInfinity"
| "number_add MinusInfinity y = MinusInfinity"
| "number_add x PlusInfinity = PlusInfinity"
| "number_add x MinusInfinity = MinusInfinity"

definition number_sub :: "js_double \<Rightarrow> js_double \<Rightarrow> js_double" where
  "number_sub x y = number_add x (number_negate y)"

fun number_mul :: "js_double \<Rightarrow> js_double \<Rightarrow> js_double" where
  "number_mul (Double m1 e1) (Double m2 e2) = round_double (m1 * m2) 1 (e1 + e2)"
| "number_mul NotANumber y = NotANumber"
| "number_mul x NotANumber = NotANumber"
| "number_mul x y =
     (let s = number_sign x * number_sign y
      in if s = 0 then NotANumber else if 0 < s then PlusInfinity else MinusInfinity)"

fun number_div :: "js_double \<Rightarrow> js_double \<Rightarrow> js_double" where
  "number_div (Double m1 e1) (Double m2 e2) =
     (if m2 = 0
      then (if m1 = 0 then NotANumber else if 0 < m1 then PlusInfinity else MinusInfinity)
      else round_double (m1 * sgn m2) \<bar>m2\<bar> (e1 - e2))"
| "number_div NotANumber y = NotANumber"
| "number_div x NotANumber = NotANumber"
| "number_div (Double m e) y = Double 0 0"
| "number_div x (Double m e) = (if 0 \<le> number_sign x * m then x else number_negate x)"
| "number_div x y = NotANumber"

text \<open>
  The comparisons \<open><\<close>, \<open>>\<close>, \<open><=\<close> and \<open>===\<close> on Numbers (false whenever an operand is
  NaN), and the truth test (\<open>0\<close> and NaN are falsy).
\<close>

fun number_lt :: "js_double \<Rightarrow> js_double \<Rightarrow> bool" where
  "number_lt (Double m1 e1) (Double m2 e2) =
     (let e = min e1 e2 in m1 * pow2 (e1 - e) < m2 * pow2 (e2 - e))"
| "number_lt NotANumber y = False"
| "number_lt x NotANumber = False"
| "number_lt MinusInfinity MinusInfinity = False"
| "number_lt MinusInfinity y = True"
| "number_lt x PlusInfinity = (x \<noteq> PlusInfinity)"
| "number_lt x y = False"

fun number_eq :: "js_double \<Rightarrow> js_double \<Rightarrow> bool" where
  "number_eq (Double m1 e1) (Double m2 e2) =
     (let e = min e1 e2 in m1 * pow2 (e1 - e) = m2 * pow2 (e2 - e))"
| "number_eq PlusInfinity PlusInfinity = True"
| "number_eq MinusInfinity MinusInfinity = True"
| "number_eq x y = False"

definition number_gt :: "js_double \<Rightarrow> js_double \<Rightarrow> bool" where
  "number_gt x y = number_lt y x"

definition number_le :: "js_double \<Rightarrow> js_double \<Rightarrow> bool" where
  "number_le x y = (number_lt x y \<or> number_eq x y)"

definition number_ge :: "js_double \<Rightarrow> js_double \<Rightarrow> bool" where
  "number_ge x y = (number_lt y x \<or> number_eq x y)"

fun number_truthy :: "js_double \<Rightarrow> bool" where
  "number_truthy (Double m e) = (m \<noteq> 0)"
| "number_truthy NotANumber = False"
| "number_truthy x = True"

text \<open>
  \<open>Math.sqrt\<close> is correctly rounded: the integer square root of the significand, scaled
  to more than 54 bits, and one sticky bit when the root is not exact. \<open>Math.abs\<close>,
  \<open>Math.min\<close> and \<open>Math.max\<close> of two Numbers are exact.
\<close>

function isqrt_iter :: "int \<Rightarrow> int \<Rightarrow> int" where
  "isqrt_iter n x =
     (if 0 < x \<and> (x + n div x) div 2 < x then isqrt_iter n ((x + n div x) div 2) else x)"
  by pat_completeness auto
termination
  by (relation "measure (\<lambda>(n, x). nat x)") auto

definition isqrt :: "int \<Rightarrow> int" where
  "isqrt n = isqrt_iter n (pow2 ((bitlen n + 1) div 2))"

fun Math_sqrt :: "js_double \<Rightarrow> js_double" where
  "Math_sqrt (Double m e) =
     (if m < 0 then NotANumber
      else if m = 0 then Double 0 0
      else (let m1 = (if even e then m else 2 * m);
                e1 = (if even e then e else e - 1);
                j = max 0 ((110 - bitlen m1) div 2 + 1);
                n = m1 * pow2 (2 * j);
                s = isqrt n
            in if s * s = n then round_double s 1 (e1 div 2 - j)
               else round_double (2 * s + 1) 2 (e1 div 2 - j)))"
| "Math_sqrt PlusInfinity = PlusInfinity"
| "Math_sqrt x = NotANumber"

fun Math_abs :: "js_double \<Rightarrow> js_double" where
  "Math_abs (Double m e) = Double \<bar>m\<bar> e"
| "Math_abs MinusInfinity = PlusInfinity"
| "Math_abs x = x"

definition Math_min :: "js_double \<Rightarrow> js_double \<Rightarrow> js_double" where
  "Math_min x y = (if x = NotANumber \<or> y = NotANumber then NotANumber
                   else if number_lt y x then y else x)"

definition Math_max :: "js_double \<Rightarrow> js_double \<Rightarrow> js_double" where
  "Math_max x y = (if x = NotANumber \<or> y = NotANumber then NotANumber
                   else if number_lt x y then y else x)"

section \<open>Opportunities and hops\<close>

text \<open>
  A hop is the object \<open>findOptimalPath\<close> returns; \<open>dex\<close>, \<open>aggregator\<close> and
  \<open>gasEstimate\<close> are \<open>None\<close> where the property is absent (\<open>undefined\<close>).
\<close>

record hop =
  fromToken :: string
  toToken :: string
  amount :: int
  outputAmount :: int
  dex :: "string option"
  aggregator :: "string option"
  hop_gasEstimate :: "js_numeric option"

record opportunity =
  opp_type :: string
  path :: "hop list"
  opp_amount :: int
  expectedProfit :: int
  profitPercent :: real

section \<open>Profit Accountant: gas estimate\<close>

text \<open>
  \<open>ProfitCalculator.estimateSwapGas\<close>. \<open>hop.dex.includes('Uniswap')\<close> is a method call on
  \<open>hop.dex\<close>: it raises a TypeError when the hop carries no \<open>dex\<close> string.
\<close>

definition estimateSwapGas :: "hop \<Rightarrow> js_error + int" where
  "estimateSwapGas h =
     (if dex h = Some ''Aerodrome'' then Inr 150000
      else if dex h = Some ''PancakeSwap'' then Inr 120000
      else (case dex h of
              None \<Rightarrow> Inl TypeError
            | Some d \<Rightarrow>
                if sublist ''Uniswap'' d then Inr 180000
                else if aggregator h = Some ''odos'' then Inr 200000
                else if aggregator h = Some ''oneInch'' then Inr 220000
                else Inr 150000))"

text \<open>
  The \<open>forEach\<close> of \<open>estimateTransactionGas\<close>, with its index: the callback adds 100000 to
  \<open>baseGas\<close> at index 0 and the hop's swap gas to \<open>swapGas\<close>; an exception in the callback
  leaves the loop.
\<close>

fun gas_forEach :: "nat \<Rightarrow> hop list \<Rightarrow> int \<times> int \<Rightarrow> js_error + (int \<times> int)" where
  "gas_forEach index [] (baseGas, swapGas) = Inr (baseGas, swapGas)"
| "gas_forEach index (h # hs) (baseGas, swapGas) =
     (let baseGas' = (if index = 0 then baseGas + 100000 else baseGas)
      in case estimateSwapGas h of
           Inl e \<Rightarrow> Inl e
         | Inr g \<Rightarrow> gas_forEach (Suc index) hs (baseGas', swapGas + g))"

definition estimateTransactionGas :: "opportunity \<Rightarrow> js_error + int" where
  "estimateTransactionGas opp =
     (case gas_forEach 0 (path opp) (21000, 0) of
        Inl e \<Rightarrow> Inl e
      | Inr (baseGas, swapGas) \<Rightarrow>
          (let flashLoanGas = 250000; safetyMultiplier = 150
           in Inr (((baseGas + swapGas + flashLoanGas) * safetyMultiplier) sdiv 100)))"

text \<open>
  The gas figure \<open>estimateGasCost\<close> multiplies by the gas price:
  \<open>simulatedGasUsed ? ethers.getBigInt(simulatedGasUsed) : this.estimateTransactionGas(opportunity)\<close>.
  \<open>None\<close> is the default \<open>null\<close>; a supplied 0 is falsy as well.
\<close>

definition totalGas :: "opportunity \<Rightarrow> int option \<Rightarrow> js_error + int" where
  "totalGas opp simulatedGasUsed =
     (case simulatedGasUsed of
        None \<Rightarrow> estimateTransactionGas opp
      | Some g \<Rightarrow> if g = 0 then estimateTransactionGas opp else Inr g)"

text \<open>
  The estimate as the specification words it: 21,000 plus the per-hop swap gas plus the
  250,000 flash-loan overhead, times 1.5.
\<close>

definition spec_transaction_gas :: "int list \<Rightarrow> int" where
  "spec_transaction_gas hopGas = ((21000 + sum_list hopGas + 250000) * 3) div 2"

section \<open>Transaction Builder\<close>








text \<open>
  \<open>encodeArbitrageCall\<close> reads \<open>opportunity.path[opportunity.path.length - 1].toToken\<close>,
  a TypeError on an empty path, before it hands the tuple to ethers' encoder, whose
  answer is an input.
\<close>

definition encodeArbitrageCall :: "opportunity \<Rightarrow> js_error + string \<Rightarrow> js_error + string" where
  "encodeArbitrageCall opp encoded = (if path opp = [] then Inl TypeError else encoded)"











section \<open>Aggregator Client: route validation\<close>

text \<open>
  The uniform route object of \<open>AggregatorService\<close>. \<open>returnAmount\<close> is a BigInt, \<open>None\<close>
  where the property is absent; \<open>path\<close> is \<open>None\<close> where it is absent or not an array;
  \<open>gasEstimate\<close> is a Number for the HTTP aggregators (\<open>response.data.gasEstimate || 0\<close>)
  and a BigInt for the direct routers.
\<close>

record route_step =
  step_dex :: string
  step_from :: string
  step_to :: string

record route =
  route_aggregator :: string
  returnAmount :: "int option"
  route_path :: "route_step list option"
  gasEstimate :: js_numeric
  priceImpact :: real

text \<open>
  \<open>validateRouteResponse\<close>, check by check. \<open>!route.returnAmount\<close> holds for an absent
  amount and for \<open>0n\<close>. The messages keep their fixed part and the aggregator name.
\<close>

definition validateRouteResponse :: "route option \<Rightarrow> string \<Rightarrow> js_error + bool" where
  "validateRouteResponse route aggregatorName =
     (case route of
        None \<Rightarrow> Inl (Error (''Empty response from '' @ aggregatorName))
      | Some r \<Rightarrow>
          (case returnAmount r of
             None \<Rightarrow> Inl (Error (''Invalid return amount from '' @ aggregatorName))
           | Some a \<Rightarrow>
               if a = 0 then Inl (Error (''Invalid return amount from '' @ aggregatorName))
               else if a \<le> 0 then Inl (Error (''Invalid return amount from '' @ aggregatorName))
               else (case route_path r of
                       None \<Rightarrow> Inl (Error (''Invalid path from '' @ aggregatorName))
                     | Some p \<Rightarrow>
                         if length p = 0 then Inl (Error (''Invalid path from '' @ aggregatorName))
                         else (let minReturn = 100
                               in if a < minReturn
                                  then Inl (Error (''Return amount too small from '' @ aggregatorName))
                                  else Inr True))))"

text \<open>
  \<open>getRoute\<close>: a cached route is returned as it is; otherwise the source named by
  \<open>aggregator\<close> is asked through the rate limiter (\<open>fetched\<close> is what that call throws or
  returns), the answer is validated, cached and returned. The cache is the state.
\<close>

definition supported_aggregators :: "string list" where
  "supported_aggregators =
     [''odos'', ''oneInch'', ''cow'', ''aerodrome'', ''pancakeswap'', ''uniswap_v3'', ''baseswap'']"

definition route_cacheKey :: "string \<Rightarrow> string \<Rightarrow> string \<Rightarrow> string \<Rightarrow> string" where
  "route_cacheKey aggregatorName from to amountStr =
     ''route_'' @ aggregatorName @ ''_'' @ from @ ''_'' @ to @ ''_'' @ amountStr"

definition getRoute ::
  "(string \<rightharpoonup> route) \<Rightarrow> string \<Rightarrow> string \<Rightarrow> string \<Rightarrow> string \<Rightarrow>
   (js_error + route option) \<Rightarrow> (js_error + route) \<times> (string \<rightharpoonup> route)" where
  "getRoute cache aggregatorName from to amountStr fetched =
     (let cacheKey = route_cacheKey aggregatorName from to amountStr
      in case cache cacheKey of
           Some cached \<Rightarrow> (Inr cached, cache)
         | None \<Rightarrow>
             if aggregatorName \<notin> set supported_aggregators
             then (Inl (Error (''Unsupported aggregator: '' @ aggregatorName)), cache)
             else (case fetched of
                     Inl e \<Rightarrow> (Inl e, cache)
                   | Inr route \<Rightarrow>
                       (case validateRouteResponse route aggregatorName of
                          Inl e \<Rightarrow> (Inl e, cache)
                        | Inr ok \<Rightarrow>
                            (case route of
                               None \<Rightarrow> (Inl TypeError, cache)
                             | Some r \<Rightarrow> (Inr r, cache(cacheKey \<mapsto> r))))))"

text \<open>
  The two conditions the code checks, and the three the specification lists.
\<close>

definition code_valid_route :: "route \<Rightarrow> bool" where
  "code_valid_route r =
     ((case returnAmount r of None \<Rightarrow> False | Some a \<Rightarrow> 100 \<le> a) \<and>
      (case route_path r of None \<Rightarrow> False | Some p \<Rightarrow> p \<noteq> []))"

fun gas_positive :: "js_numeric \<Rightarrow> bool" where
  "gas_positive (BigInt g) = (0 < g)"
| "gas_positive (Number g) = (0 < g)"

definition spec_valid_quote :: "route \<Rightarrow> bool" where
  "spec_valid_quote r = (code_valid_route r \<and> gas_positive (gasEstimate r))"

section \<open>Alerts: cooldown per level\<close>

text \<open>
  One call of \<open>AlertingSystem.sendAlert\<close>: its level and title, \<open>JSON.stringify(data)\<close>,
  and the value of \<open>Date.now()\<close> in milliseconds that the call reads before its first
  channel send. The channel configuration lists the enabled channels and those whose send
  throws.
\<close>

record alert_call =
  level :: string
  title :: string
  data_json :: string
  now :: int

record channel_env =
  enabled_channels :: "string list"
  failing_channels :: "string list"

datatype alert_result = CooldownActive | Dispatched "(string \<times> bool) list"

text \<open>
  \<open>getCooldownForLevel\<close> is \<open>cooldowns[level] || 300\<close> on an object literal with five own
  properties. A level the literal does not list reads \<open>undefined\<close> and gives 300, unless
  it names a property the literal inherits from \<open>Object.prototype\<close>: then the lookup
  returns that function or object, which is truthy, and \<open>cooldown * 1000\<close> is NaN.
\<close>

datatype cooldown = Seconds int | Inherited

definition object_prototype_names :: "string list" where
  "object_prototype_names =
     [''constructor'', ''__defineGetter__'', ''__defineSetter__'', ''hasOwnProperty'',
      ''__lookupGetter__'', ''__lookupSetter__'', ''isPrototypeOf'', ''propertyIsEnumerable'',
      ''toString'', ''valueOf'', ''__proto__'', ''toLocaleString'']"

definition getCooldownForLevel :: "string \<Rightarrow> cooldown" where
  "getCooldownForLevel lv =
     (if lv = ''critical'' then Seconds 60
      else if lv = ''error'' then Seconds 300
      else if lv = ''warning'' then Seconds 900
      else if lv = ''info'' then Seconds 1800
      else if lv = ''success'' then Seconds 3600
      else if lv \<in> set object_prototype_names then Inherited
      else Seconds 300)"

definition shouldSendToChannel :: "string \<Rightarrow> string \<Rightarrow> bool" where
  "shouldSendToChannel channel lv =
     (if channel = ''telegram'' then lv \<in> set [''critical'', ''error'', ''warning'', ''success'']
      else if channel = ''discord'' then lv \<in> set [''critical'', ''error'', ''warning'']
      else if channel = ''slack'' then lv \<in> set [''critical'', ''error'']
      else if channel = ''email'' then lv \<in> set [''critical'']
      else if channel = ''webhook'' then lv \<in> set [''critical'', ''error'', ''warning'']
      else False)"

definition alert_channels :: "string list" where
  "alert_channels = [''telegram'', ''discord'', ''slack'', ''email'', ''webhook'']"

text \<open>
  \<open>sendAlert\<close> is an \<open>async\<close> function. Its first part runs without interruption: it builds
  the key, reads \<open>Date.now()\<close> and \<open>alertCooldowns.get(alertKey) || 0\<close>, and inside the
  cooldown window returns \<open>{ sent: false, reason: 'Cooldown active' }\<close>; the comparison
  \<open>now - lastAlert < cooldown * 1000\<close> is false when the right side is NaN. Past the gate
  it sends on every enabled channel that takes the level, and each send is an \<open>await\<close>:
  other callbacks, further calls of \<open>sendAlert\<close> among them, run while the call waits.
  Only after the last send does it write \<open>alertCooldowns.set(alertKey, now)\<close>, with the
  time it read at the start. With no channel to send on there is no \<open>await\<close> and the call
  runs to its end at once.
\<close>

definition alertKey :: "alert_call \<Rightarrow> string" where
  "alertKey c = level c @ '':'' @ title c @ '':'' @ data_json c"

definition lastAlert :: "(string \<rightharpoonup> int) \<Rightarrow> string \<Rightarrow> int" where
  "lastAlert alertCooldowns k = (case alertCooldowns k of None \<Rightarrow> 0 | Some t \<Rightarrow> t)"

definition cooldown_active :: "(string \<rightharpoonup> int) \<Rightarrow> alert_call \<Rightarrow> bool" where
  "cooldown_active alertCooldowns c =
     (case getCooldownForLevel (level c) of
        Seconds s \<Rightarrow> now c - lastAlert alertCooldowns (alertKey c) < s * 1000
      | Inherited \<Rightarrow> False)"

definition channels_for :: "channel_env \<Rightarrow> alert_call \<Rightarrow> string list" where
  "channels_for env c =
     filter (\<lambda>channel. channel \<in> set (enabled_channels env) \<and>
                        shouldSendToChannel channel (level c))
       alert_channels"

definition channel_results :: "channel_env \<Rightarrow> alert_call \<Rightarrow> (string \<times> bool) list" where
  "channel_results env c =
     map (\<lambda>channel. (channel, channel \<notin> set (failing_channels env))) (channels_for env c)"

text \<open>
  The state is the \<open>alertCooldowns\<close> map together with the calls that are past the gate
  and wait for their sends. \<open>sendAlert_begin\<close> is a call up to its first \<open>await\<close>: it
  answers at once, or joins the waiting calls. \<open>sendAlert_end\<close> is the rest of the
  waiting call at position \<open>k\<close>, once its sends have returned.
\<close>

record alerting =
  alertCooldowns :: "string \<rightharpoonup> int"
  waiting :: "alert_call list"

definition sendAlert_begin ::
  "channel_env \<Rightarrow> alerting \<Rightarrow> alert_call \<Rightarrow> alert_result option \<times> alerting" where
  "sendAlert_begin env st c =
     (if cooldown_active (alertCooldowns st) c then (Some CooldownActive, st)
      else if channels_for env c = []
      then (Some (Dispatched []), st\<lparr>alertCooldowns := (alertCooldowns st)(alertKey c \<mapsto> now c)\<rparr>)
      else (None, st\<lparr>waiting := waiting st @ [c]\<rparr>))"

definition sendAlert_end ::
  "channel_env \<Rightarrow> alerting \<Rightarrow> nat \<Rightarrow> alert_result option \<times> alerting" where
  "sendAlert_end env st k =
     (if k < length (waiting st)
      then (let c = waiting st ! k
            in (Some (Dispatched (channel_results env c)),
                \<lparr>alertCooldowns = (alertCooldowns st)(alertKey c \<mapsto> now c),
                 waiting = take k (waiting st) @ drop (Suc k) (waiting st)\<rparr>))
      else (None, st))"

text \<open>
  A history of the alerting system: calls begin and waiting calls end, in any order the
  event loop produces. The result of a history lists what each event answered.
\<close>

datatype alert_event = Begins alert_call | Ends nat

fun alert_step ::
  "channel_env \<Rightarrow> alerting \<Rightarrow> alert_event \<Rightarrow> alert_result option \<times> alerting" where
  "alert_step env st (Begins c) = sendAlert_begin env st c"
| "alert_step env st (Ends k) = sendAlert_end env st k"

fun alert_run ::
  "channel_env \<Rightarrow> alerting \<Rightarrow> alert_event list \<Rightarrow> alert_result option list" where
  "alert_run env st [] = []"
| "alert_run env st (ev # evs) =
     (case alert_step env st ev of (r, st') \<Rightarrow> r # alert_run env st' evs)"

definition new_alerting :: alerting where
  "new_alerting = \<lparr>alertCooldowns = Map.empty, waiting = []\<rparr>"

text \<open>
  Two unhandled rejections in one turn of the event loop: the process handler of
  \<open>bot.js\<close> calls \<open>sendCriticalError\<close> for each, with equal data, 5 ms apart, while the
  Telegram send of the first takes longer than that.
\<close>

definition critical_error_call :: "int \<Rightarrow> alert_call" where
  "critical_error_call t =
     \<lparr>level = ''critical'', title = ''Critical Error'',
      data_json = ''{\"reason\":{},\"stack\":[\"Error: Unhandled rejection\",'' @
                  ''\"    at process.<anonymous> (/app/src/bot.js:917:45)\",'' @
                  ''\"    at process.emit (node:events:517:28)\",'' @
                  ''\"    at emit (node:internal/process/promises:149:20)\",'' @
                  ''\"    at processPromiseRejections (node:internal/process/promises:283:27)\"]}'',
      now = t\<rparr>"

definition telegram_only :: channel_env where
  "telegram_only = \<lparr>enabled_channels = [''telegram''], failing_channels = []\<rparr>"

section \<open>RPC Transport: endpoint health\<close>

text \<open>
  The per-endpoint record of \<open>RPCManager\<close> (the provider and the two limiters are not
  state the claims read) and the manager with its round-robin cursor. Two more components
  stand for what the event loop holds on the manager's behalf: \<open>timers\<close>, the pending
  \<open>setTimeout\<close> callbacks as the endpoint each will probe and the time it is due, and
  \<open>probes\<close>, the calls of \<open>checkNodeHealth\<close> that wait for their \<open>getBlockNumber()\<close>.
  \<open>initializeNodes\<close> gives every endpoint its index as \<open>id\<close>.
\<close>

record rpc_node =
  node_id :: nat
  url :: string
  isHealthy :: bool
  lastChecked :: int
  failureCount :: nat

record rpc_manager =
  nodes :: "rpc_node list"
  currentIndex :: nat
  timers :: "(nat \<times> int) list"
  probes :: "nat list"

record rpc_settings =
  unhealthyTimeoutMs :: int
  healthCheckIntervalMs :: int

definition initializeNodes :: "string list \<Rightarrow> rpc_manager" where
  "initializeNodes rpcNodes =
     \<lparr>nodes = map (\<lambda>(index, u). \<lparr>node_id = index, url = u, isHealthy = True,
                                     lastChecked = 0, failureCount = 0\<rparr>)
                  (zip [0..<length rpcNodes] rpcNodes),
      currentIndex = 0, timers = [], probes = []\<rparr>"

text \<open>
  \<open>getHealthyProvider\<close>. The \<open>while\<close> loop reads the endpoint under the cursor, advances
  the cursor modulo the number of endpoints and returns the endpoint when it is healthy;
  after as many unhealthy reads as there are endpoints it falls back to
  \<open>this.nodes.find(n => n.isHealthy) || this.nodes[0]\<close>. With no endpoint the loop body
  never runs and the function returns \<open>undefined\<close> (\<open>None\<close>). The endpoint returned is
  named by its position; the second component is the cursor afterwards.
\<close>

fun find_healthy :: "nat \<Rightarrow> rpc_node list \<Rightarrow> nat option" where
  "find_healthy k [] = None"
| "find_healthy k (n # ns) = (if isHealthy n then Some k else find_healthy (Suc k) ns)"

function ghp_loop :: "rpc_node list \<Rightarrow> nat \<Rightarrow> nat \<Rightarrow> js_error + (nat option \<times> nat)" where
  "ghp_loop ns cur attempts =
     (if attempts < length ns then
        (if length ns \<le> cur then Inl TypeError
         else (let node = ns ! cur; cur' = (cur + 1) mod length ns
               in if isHealthy node then Inr (Some cur, cur')
                  else if attempts + 1 = length ns
                       then Inr (Some (case find_healthy 0 ns of Some k \<Rightarrow> k | None \<Rightarrow> 0), cur')
                       else ghp_loop ns cur' (attempts + 1)))
      else Inr (None, cur))"
  by pat_completeness auto
termination
  by (relation "measure (\<lambda>(ns, cur, attempts). length ns - attempts)") auto

definition getHealthyProvider :: "rpc_manager \<Rightarrow> js_error + (nat option \<times> rpc_manager)" where
  "getHealthyProvider m =
     (case ghp_loop (nodes m) (currentIndex m) 0 of
        Inl e \<Rightarrow> Inl e
      | Inr (selected, cur') \<Rightarrow> Inr (selected, m\<lparr>currentIndex := cur'\<rparr>))"

text \<open>
  \<open>markUnhealthy\<close> clears the flag, stamps \<open>lastChecked\<close> with \<open>Date.now()\<close> and schedules
  a probe of the endpoint \<open>unhealthyTimeoutMs\<close> later; an id with no endpoint does nothing.
\<close>

definition markUnhealthy :: "rpc_settings \<Rightarrow> rpc_manager \<Rightarrow> nat \<Rightarrow> int \<Rightarrow> rpc_manager" where
  "markUnhealthy cfg m nodeId t =
     (if nodeId < length (nodes m)
      then m\<lparr>nodes := (nodes m)[nodeId := (nodes m ! nodeId)\<lparr>isHealthy := False,
                                                               lastChecked := t\<rparr>],
             timers := timers m @ [(nodeId, t + unhealthyTimeoutMs cfg)]\<rparr>
      else m)"

text \<open>
  \<open>executeWithLimiters\<close> on the endpoint at position \<open>i\<close>; \<open>fn_ok\<close> tells whether the call
  scheduled through the minute and second limiters succeeded, \<open>t\<close> is \<open>Date.now()\<close>.
  Success resets the failure counter and returns \<open>true\<close>; failure increments it, marks the
  endpoint \<open>node.id\<close> unhealthy once the counter has reached 3, and rethrows.
\<close>

definition executeWithLimiters ::
  "rpc_settings \<Rightarrow> rpc_manager \<Rightarrow> nat \<Rightarrow> bool \<Rightarrow> int \<Rightarrow> (js_error + bool) \<times> rpc_manager" where
  "executeWithLimiters cfg m i fn_ok t =
     (if fn_ok
      then (Inr True, m\<lparr>nodes := (nodes m)[i := (nodes m ! i)\<lparr>failureCount := 0\<rparr>]\<rparr>)
      else (let node = (nodes m ! i)\<lparr>failureCount := failureCount (nodes m ! i) + 1\<rparr>;
                m1 = m\<lparr>nodes := (nodes m)[i := node]\<rparr>
            in (Inl (Error ''rpc call failed''),
                if 3 \<le> failureCount node then markUnhealthy cfg m1 (node_id node) t else m1)))"

text \<open>
  \<open>checkNodeHealth\<close> in its two halves, before and after \<open>await getBlockNumber()\<close>. The
  first registers the probe. The second, for a probe that is waiting, sets the endpoint
  healthy when the read succeeded (the failure counter stays as it is), and otherwise
  clears the flag again and schedules the next probe.
\<close>

definition checkNodeHealth_start :: "rpc_manager \<Rightarrow> nat \<Rightarrow> rpc_manager" where
  "checkNodeHealth_start m nodeId =
     (if nodeId < length (nodes m) then m\<lparr>probes := probes m @ [nodeId]\<rparr> else m)"

definition checkNodeHealth_return ::
  "rpc_settings \<Rightarrow> rpc_manager \<Rightarrow> nat \<Rightarrow> bool \<Rightarrow> int \<Rightarrow> rpc_manager" where
  "checkNodeHealth_return cfg m nodeId ok t =
     (if nodeId \<in> set (probes m) \<and> nodeId < length (nodes m)
      then (let m1 = m\<lparr>probes := remove1 nodeId (probes m)\<rparr>
            in if ok
               then m1\<lparr>nodes := (nodes m)[nodeId := (nodes m ! nodeId)\<lparr>isHealthy := True\<rparr>]\<rparr>
               else m1\<lparr>nodes := (nodes m)[nodeId := (nodes m ! nodeId)\<lparr>isHealthy := False\<rparr>],
                       timers := timers m @ [(nodeId, t + unhealthyTimeoutMs cfg)]\<rparr>)
      else m)"

text \<open>
  A pending timer, named by its position, fires once its time has come and starts the
  probe. The interval callback of \<open>startHealthChecks\<close> starts a probe of every endpoint that
  is unhealthy and was stamped more than \<open>healthCheckIntervalMs\<close> ago.
\<close>

definition timer_fires :: "rpc_manager \<Rightarrow> nat \<Rightarrow> int \<Rightarrow> rpc_manager" where
  "timer_fires m k t =
     (if k < length (timers m) \<and> snd (timers m ! k) \<le> t
      then checkNodeHealth_start (m\<lparr>timers := take k (timers m) @ drop (Suc k) (timers m)\<rparr>)
             (fst (timers m ! k))
      else m)"

definition healthCheck_tick :: "rpc_settings \<Rightarrow> rpc_manager \<Rightarrow> int \<Rightarrow> rpc_manager" where
  "healthCheck_tick cfg m t =
     foldl checkNodeHealth_start m
       (filter (\<lambda>index. \<not> isHealthy (nodes m ! index) \<and>
                         t - lastChecked (nodes m ! index) > healthCheckIntervalMs cfg)
          [0..<length (nodes m)])"

text \<open>
  What can happen to a manager, one event at a time: a selection, the end of a call
  through the limiters on an endpoint, a timer firing, the end of a probe, a tick of the
  health-check interval. JavaScript runs each of these to its next \<open>await\<close> without
  interruption. An event that cannot happen in the state (a timer not yet due, a probe
  that was not started) leaves it unchanged.
\<close>

datatype rpc_event =
    Select
  | CallReturns nat bool int
  | TimerFires nat int
  | ProbeReturns nat bool int
  | HealthCheckTick int

fun rpc_step :: "rpc_settings \<Rightarrow> rpc_manager \<Rightarrow> rpc_event \<Rightarrow> rpc_manager" where
  "rpc_step cfg m Select = (case getHealthyProvider m of Inl e \<Rightarrow> m | Inr (r, m') \<Rightarrow> m')"
| "rpc_step cfg m (CallReturns i ok t) =
     (if i < length (nodes m) then snd (executeWithLimiters cfg m i ok t) else m)"
| "rpc_step cfg m (TimerFires k t) = timer_fires m k t"
| "rpc_step cfg m (ProbeReturns i ok t) = checkNodeHealth_return cfg m i ok t"
| "rpc_step cfg m (HealthCheckTick t) = healthCheck_tick cfg m t"

definition rpc_run :: "rpc_settings \<Rightarrow> rpc_manager \<Rightarrow> rpc_event list \<Rightarrow> rpc_manager" where
  "rpc_run cfg m events = foldl (rpc_step cfg) m events"

fun restores :: "nat \<Rightarrow> rpc_event \<Rightarrow> bool" where
  "restores i (ProbeReturns j ok t) = (j = i \<and> ok)"
| "restores i ev = False"

text \<open>
  The states \<open>initializeNodes\<close> builds and the events keep: the cursor is inside the
  list and every endpoint's \<open>id\<close> is its position.
\<close>

definition rpc_wf :: "rpc_manager \<Rightarrow> bool" where
  "rpc_wf m = (currentIndex m < length (nodes m) \<and>
               map node_id (nodes m) = [0..<length (nodes m)])"

definition any_healthy :: "rpc_manager \<Rightarrow> bool" where
  "any_healthy m = (find_healthy 0 (nodes m) \<noteq> None)"

text \<open>
  Two endpoints, probed 30 s after being marked. Both are selected once; then three
  calls through the handle of the first fail, its timer fires when due, and the probe
  succeeds.
\<close>

definition example_settings :: rpc_settings where
  "example_settings = \<lparr>unhealthyTimeoutMs = 30000, healthCheckIntervalMs = 60000\<rparr>"

definition three_failures :: "rpc_event list" where
  "three_failures =
     [Select, Select, CallReturns 0 False 1700000001000, CallReturns 0 False 1700000002000,
      CallReturns 0 False 1700000003000]"

definition probe_restores :: "rpc_event list" where
  "probe_restores = [TimerFires 0 1700000033000, ProbeReturns 0 True 1700000033050]"

section \<open>Z-Score Engine: trading signal\<close>

text \<open>
  A monitored pair with the cointegration attributes the signal reads (\<open>None\<close> where the
  attribute is absent), and the signal object, of which the signal and the confidence
  are kept.
\<close>

datatype signal = HOLD | SHORT_A_LONG_B | LONG_A_SHORT_B | CLOSE_POSITION

record pair =
  tokenA :: string
  tokenB :: string
  halfLife :: "js_double option"
  hurstExponent :: "js_double option"

record trading_signal =
  signal :: signal
  confidence :: js_double

text \<open>
  The z-score object as the statistical scanner reads it: it looks at the sign and the
  size of \<open>value\<close> only, kept as a real, with \<open>None\<close> for NaN. Comparisons of a possibly
  absent Number with a constant: with \<open>undefined\<close> they are false.
\<close>

record zscore =
  zs_value :: "real option"
  mean :: "real option"
  stdDev :: "real option"
  ratio :: real
  zs_halfLife :: "real option"
  zs_hurstExponent :: "real option"


text \<open>
  The z-score object as \<open>calculateZScore\<close> computes it, in doubles, with the fields the
  signal reads.
\<close>

record zscore_object =
  zo_value :: js_double
  zo_mean :: js_double
  zo_stdDev :: js_double
  zo_ratio :: js_double
  zo_halfLife :: "js_double option"
  zo_hurstExponent :: "js_double option"

text \<open>
  \<open>getHistoricalRatios\<close>: the two price histories are read side by side up to the shorter
  one, and a position contributes \<open>pricesA[i] / pricesB[i]\<close> when both prices are truthy
  and the second is positive.
\<close>

fun getHistoricalRatios :: "js_double list \<Rightarrow> js_double list \<Rightarrow> js_double list" where
  "getHistoricalRatios (a # pricesA) (b # pricesB) =
     (if number_truthy a \<and> number_truthy b \<and> number_gt b (Double 0 0)
      then number_div a b # getHistoricalRatios pricesA pricesB
      else getHistoricalRatios pricesA pricesB)"
| "getHistoricalRatios [] pricesB = []"
| "getHistoricalRatios pricesA [] = []"

text \<open>
  \<open>Math.pow(x, 2)\<close>, taken as the correctly rounded square, and the two \<open>reduce\<close> calls of
  \<open>calculateZScore\<close>: the sum of the ratios from 0, and the sum of the squared
  deviations from the mean from 0, both from left to right.
\<close>

definition Math_pow_2 :: "js_double \<Rightarrow> js_double" where
  "Math_pow_2 x = number_mul x x"

definition ratios_sum :: "js_double list \<Rightarrow> js_double" where
  "ratios_sum historicalRatios = foldl number_add (Double 0 0) historicalRatios"

definition squares_sum :: "js_double \<Rightarrow> js_double list \<Rightarrow> js_double" where
  "squares_sum mu historicalRatios =
     foldl (\<lambda>a b. number_add a (Math_pow_2 (number_sub b mu))) (Double 0 0) historicalRatios"

text \<open>
  \<open>calculateZScore\<close>. Its inputs beside the pair are the cache entry, the two current prices
  (\<open>null\<close> as \<open>None\<close>; \<open>!price\<close> also holds for 0 and NaN), the two price histories and the
  window size. It returns \<open>null\<close> for a missing price, for fewer ratios than 0.7 of the
  window, and when the standard deviation it computed is \<open>=== 0\<close>. The variance divides by
  the number of ratios.
\<close>

definition calculateZScore ::
  "zscore_object option \<Rightarrow> pair \<Rightarrow> js_double option \<Rightarrow> js_double option \<Rightarrow>
   js_double list \<Rightarrow> js_double list \<Rightarrow> js_double \<Rightarrow> zscore_object option" where
  "calculateZScore cached p priceA priceB pricesA pricesB windowSize =
     (case cached of
        Some z \<Rightarrow> Some z
      | None \<Rightarrow>
          (case priceA of
             None \<Rightarrow> None
           | Some a \<Rightarrow>
               (case priceB of
                  None \<Rightarrow> None
                | Some b \<Rightarrow>
                    if number_truthy a \<and> number_truthy b
                    then (let r = number_div a b;
                              historicalRatios = getHistoricalRatios pricesA pricesB;
                              n = number_of_int (int (length historicalRatios))
                          in if number_lt n (number_mul windowSize (decimal 7 1)) then None
                             else (let mu = number_div (ratios_sum historicalRatios) n;
                                       variance = number_div (squares_sum mu historicalRatios) n;
                                       sigma = Math_sqrt variance
                                   in if number_eq sigma (Double 0 0) then None
                                      else Some \<lparr>zo_value = number_div (number_sub r mu) sigma,
                                                 zo_mean = mu,
                                                 zo_stdDev = sigma,
                                                 zo_ratio = r,
                                                 zo_halfLife = halfLife p,
                                                 zo_hurstExponent = hurstExponent p\<rparr>))
                    else None)))"

text \<open>
  \<open>calculateConfidence\<close>; a comparison with an absent (\<open>undefined\<close>) attribute is false.
\<close>

definition attribute_lt :: "js_double option \<Rightarrow> js_double \<Rightarrow> bool" where
  "attribute_lt x c = (case x of None \<Rightarrow> False | Some v \<Rightarrow> number_lt v c)"

definition attribute_gt :: "js_double option \<Rightarrow> js_double \<Rightarrow> bool" where
  "attribute_gt x c = (case x of None \<Rightarrow> False | Some v \<Rightarrow> number_gt v c)"

definition calculateConfidence ::
  "js_double \<Rightarrow> js_double option \<Rightarrow> js_double option \<Rightarrow> js_double" where
  "calculateConfidence z hurst hl =
     (let c0 = Math_min (number_div z (number_of_int 4)) (number_of_int 1);
          c1 = (if attribute_lt hurst (decimal 4 1) then number_mul c0 (decimal 12 1)
                else if attribute_gt hurst (decimal 6 1) then number_mul c0 (decimal 8 1)
                else c0);
          c2 = (if attribute_lt hl (number_of_int 10) then number_mul c1 (decimal 13 1)
                else if attribute_gt hl (number_of_int 30) then number_mul c1 (decimal 7 1)
                else c1)
      in Math_min (Math_max c2 (number_of_int 0)) (number_of_int 1))"

text \<open>
  \<open>getTradingSignal\<close> calls \<open>calculateZScore\<close> on the pair and reads the thresholds of the
  engine; a \<open>null\<close> z-score gives \<open>HOLD\<close> with confidence 0.
\<close>

definition getTradingSignal ::
  "zscore_object option \<Rightarrow> pair \<Rightarrow> js_double option \<Rightarrow> js_double option \<Rightarrow>
   js_double list \<Rightarrow> js_double list \<Rightarrow> js_double \<Rightarrow> js_double \<Rightarrow> js_double \<Rightarrow>
   trading_signal" where
  "getTradingSignal cached p priceA priceB pricesA pricesB windowSize entry exit =
     (case calculateZScore cached p priceA priceB pricesA pricesB windowSize of
        None \<Rightarrow> \<lparr>signal = HOLD, confidence = number_of_int 0\<rparr>
      | Some zScore \<Rightarrow>
          (let absZScore = Math_abs (zo_value zScore)
           in if number_gt (zo_value zScore) entry
              then \<lparr>signal = SHORT_A_LONG_B,
                    confidence = calculateConfidence absZScore (zo_hurstExponent zScore)
                                   (zo_halfLife zScore)\<rparr>
              else if number_lt (zo_value zScore) (number_negate entry)
              then \<lparr>signal = LONG_A_SHORT_B,
                    confidence = calculateConfidence absZScore (zo_hurstExponent zScore)
                                   (zo_halfLife zScore)\<rparr>
              else if number_lt absZScore exit
              then \<lparr>signal = CLOSE_POSITION, confidence = decimal 8 1\<rparr>
              else \<lparr>signal = HOLD, confidence = number_of_int 0\<rparr>))"

text \<open>
  The sample variance in the specification's wording, over the exact values of the
  ratios: the sum of squared deviations from the mean, divided by one less than their
  number. The sample standard deviation is its square root, zero exactly when it is.
\<close>

fun double_rat :: "js_double \<Rightarrow> rat" where
  "double_rat (Double m e) =
     (if 0 \<le> e then of_int (m * pow2 e) else of_int m / of_int (pow2 (- e)))"
| "double_rat x = 0"

definition sample_variance :: "rat list \<Rightarrow> rat" where
  "sample_variance xs =
     (let mu = sum_list xs / of_nat (length xs)
      in sum_list (map (\<lambda>x. (x - mu)\<^sup>2) xs) / (of_nat (length xs) - 1))"

text \<open>
  A pair of the base token, whose price reads 1 at every block, and a token whose pool
  price stood at 10 for the 100 blocks of the window, while the quoter now answers 5.
\<close>

definition flat_pair :: pair where
  "flat_pair = \<lparr>tokenA = ''0x4200000000000000000000000000000000000006'',
                tokenB = ''0x2Ae3F1Ec7F1F5012CFEab0185bfc7aa3cf0DEc22'',
                halfLife = Some (number_of_int 15), hurstExponent = Some (decimal 5 1)\<rparr>"

definition flat_pricesA :: "js_double list" where
  "flat_pricesA = replicate 100 (number_of_int 1)"

definition flat_pricesB :: "js_double list" where
  "flat_pricesB = replicate 100 (number_of_int 10)"

section \<open>Profit Accountant: simulation\<close>

text \<open>
  What the methods of a \<open>ProfitCalculator\<close> read from outside the class, as one record:
  whether \<open>getHealthyProvider\<close> returns an endpoint (it returns \<open>undefined\<close>, which the
  destructuring rejects, when none is configured), \<open>config.testMode\<close>, what each hop's
  \<open>router.swap.estimateGas\<close> answers (\<open>None\<close> when it throws), \<open>provider.getFeeData()\<close>, the
  native asset's price (\<open>null\<close> as \<open>None\<close>; that or 0 makes \<open>ethPrice || 1800\<close> take 1800),
  the token manager's price and decimals for a token address (the price \<open>null\<close> as \<open>None\<close>,
  the decimals 18 for a token it does not know), the slippage model's estimate for a hop,
  \<open>config.flashLoanPremiumBps\<close> (absent as \<open>None\<close>), whether the simulator's API key is set,
  and what ethers' encoder answers for the call data. The calculator is taken with its
  collaborators in place, a token manager and a slippage model that answer; the methods
  below are what the class does with their answers.
\<close>

record fee_data =
  fd_gasPrice :: "int option"
  fd_maxFeePerGas :: "int option"

record expected_profit =
  grossProfitUSD :: js_double
  flashLoanCostUSD :: js_double
  slippageBufferUSD :: js_double
  inputValueUSD :: js_double
  outputValueUSD :: js_double

text \<open>
  The object a simulation returns. \<open>netProfitPercent\<close> is a property the orchestrator
  reads from it; none of the object literals of \<open>simulateTransaction\<close>,
  \<open>performLocalSimulation\<close> and \<open>performTenderlySimulation\<close> has it, so it is \<open>None\<close>
  (\<open>undefined\<close>) wherever such an object is built below.
\<close>

record simulation =
  success :: bool
  sim_error :: "string option"
  gasUsed :: "int option"
  gasCostUSD :: "js_double option"
  netProfitUSD :: "js_double option"
  profitDetails :: "expected_profit option"
  netProfitPercent :: "js_double option"

record sim_env =
  provider_available :: bool
  testMode :: bool
  routerEstimates :: "int option list"
  feeData :: "js_error + fee_data"
  nativePrice :: "js_double option"
  priceUSD_of :: "string \<Rightarrow> js_double option"
  decimals_of :: "string \<Rightarrow> nat"
  slippage_of :: "hop \<Rightarrow> js_double"
  flashLoanPremiumBps :: "int option"
  tenderlyApiKey :: bool
  encodedCall :: "js_error + string"

text \<open>
  \<open>feeData.gasPrice || feeData.maxFeePerGas || 0n\<close>, and the gas cost in USD:
  \<open>Number(ethers.formatUnits(gas * price, 18)) * (ethPrice || 1800)\<close>.
\<close>

definition effective_gasPrice :: "fee_data \<Rightarrow> int" where
  "effective_gasPrice fd =
     (case fd_gasPrice fd of
        Some g \<Rightarrow> if g \<noteq> 0 then g
                  else (case fd_maxFeePerGas fd of Some f \<Rightarrow> f | None \<Rightarrow> 0)
      | None \<Rightarrow> (case fd_maxFeePerGas fd of Some f \<Rightarrow> f | None \<Rightarrow> 0))"

definition gas_cost_usd :: "int \<Rightarrow> int \<Rightarrow> js_double option \<Rightarrow> js_double" where
  "gas_cost_usd gas price eth =
     (let gasCostWei = gas * price;
          gasCostETH = Number_formatUnits gasCostWei 18
      in number_mul gasCostETH
           (case eth of
              None \<Rightarrow> number_of_int 1800
            | Some p \<Rightarrow> if number_truthy p then p else number_of_int 1800))"

text \<open>
  \<open>calculateUSDValue\<close> returns 0 for \<open>!priceUSD || priceUSD <= 0\<close> and otherwise
  \<open>Number(ethers.formatUnits(amount, decimals)) * priceUSD\<close>. \<open>calculateFlashLoanCost\<close>
  values the premium \<open>amount * premiumBps / 10000n\<close> with \<open>config.flashLoanPremiumBps || 9\<close>.
  \<open>calculateSlippageBuffer\<close> adds up each hop's value times its slippage estimate, from 0,
  and returns 1.5 times the sum.
\<close>

definition calculateUSDValue :: "sim_env \<Rightarrow> int \<Rightarrow> string \<Rightarrow> js_double option \<Rightarrow> js_double" where
  "calculateUSDValue env amountWei tokenAddress price =
     (case price of
        None \<Rightarrow> number_of_int 0
      | Some p \<Rightarrow>
          if number_truthy p
          then (if number_le p (number_of_int 0) then number_of_int 0
                else number_mul (Number_formatUnits amountWei (decimals_of env tokenAddress)) p)
          else number_of_int 0)"

definition calculateFlashLoanCost ::
  "sim_env \<Rightarrow> int \<Rightarrow> string \<Rightarrow> js_double option \<Rightarrow> js_double" where
  "calculateFlashLoanCost env amountWei tokenAddress price =
     (let premiumBps = (case flashLoanPremiumBps env of
                          None \<Rightarrow> 9
                        | Some bps \<Rightarrow> if bps = 0 then 9 else bps);
          premium = (amountWei * premiumBps) sdiv 10000
      in calculateUSDValue env premium tokenAddress price)"

definition calculateSlippageBuffer :: "sim_env \<Rightarrow> hop list \<Rightarrow> js_double" where
  "calculateSlippageBuffer env hops =
     number_mul
       (foldl (\<lambda>totalSlippageUSD h.
                 number_add totalSlippageUSD
                   (number_mul (calculateUSDValue env (amount h) (fromToken h)
                                  (priceUSD_of env (fromToken h)))
                      (slippage_of env h)))
          (number_of_int 0) hops)
       (decimal 15 1)"

text \<open>
  \<open>calculateExpectedProfit\<close> reads \<open>opportunity.path[0].fromToken\<close>, a TypeError on an empty
  path. The gross profit is the USD value of the last hop's output minus that of the
  input amount.
\<close>

definition calculateExpectedProfit :: "sim_env \<Rightarrow> opportunity \<Rightarrow> js_error + expected_profit" where
  "calculateExpectedProfit env opp =
     (if path opp = [] then Inl TypeError
      else (let inputAmount = opp_amount opp;
                inputToken = fromToken (hd (path opp));
                inputValue = calculateUSDValue env inputAmount inputToken
                               (priceUSD_of env inputToken);
                outputToken = toToken (last (path opp));
                outputValue = calculateUSDValue env (outputAmount (last (path opp))) outputToken
                                (priceUSD_of env outputToken)
            in Inr \<lparr>grossProfitUSD = number_sub outputValue inputValue,
                     flashLoanCostUSD = calculateFlashLoanCost env inputAmount inputToken
                                          (priceUSD_of env inputToken),
                     slippageBufferUSD = calculateSlippageBuffer env (path opp),
                     inputValueUSD = inputValue,
                     outputValueUSD = outputValue\<rparr>))"

text \<open>The per-hop gas estimate of the local simulation.\<close>

definition getDexRouterAddress :: "string option \<Rightarrow> string option" where
  "getDexRouterAddress dexName =
     (if dexName = Some ''Aerodrome'' then Some ''0xcF77a3Ba9A5CA399B7c97c74d54e5b1Beb874E43''
      else if dexName = Some ''PancakeSwap'' then Some ''0x678Aa4bF4E210cf2166753e054d5b7c31cc7fa86''
      else if dexName = Some ''Uniswap V3'' then Some ''0x4752ba5dbc23f44d87826276bf6fd6b1c372ad24''
      else if dexName = Some ''Baseswap'' then Some ''0x327Df1E6de05895d2ab08513aA9319310cE3a516''
      else None)"

definition estimateSwapGasLocal :: "hop \<Rightarrow> int option \<Rightarrow> int" where
  "estimateSwapGasLocal h routerEstimate =
     (if aggregator h = Some ''odos'' then 200000
      else if aggregator h = Some ''oneInch'' then 180000
      else (case getDexRouterAddress (dex h) of
              None \<Rightarrow> 150000
            | Some dexRouter \<Rightarrow> (case routerEstimate of None \<Rightarrow> 150000 | Some g \<Rightarrow> g)))"

fun local_gas_estimates :: "hop list \<Rightarrow> int option list \<Rightarrow> int list" where
  "local_gas_estimates [] es = []"
| "local_gas_estimates (h # hs) [] = estimateSwapGasLocal h None # local_gas_estimates hs []"
| "local_gas_estimates (h # hs) (e # es) = estimateSwapGasLocal h e # local_gas_estimates hs es"

text \<open>
  \<open>performLocalSimulation\<close>: the net profit is
  \<open>profit.grossProfitUSD - gasCostUSD - profit.flashLoanCostUSD\<close> and success is
  \<open>netProfitUSD > 0\<close>.
\<close>

definition performLocalSimulation :: "opportunity \<Rightarrow> sim_env \<Rightarrow> js_error + simulation" where
  "performLocalSimulation opp env =
     (let gasEstimates = local_gas_estimates (path opp) (routerEstimates env);
          totalGas = sum_list gasEstimates
      in case feeData env of
           Inl e \<Rightarrow> Inl e
         | Inr fd \<Rightarrow>
             (let gasCost = gas_cost_usd totalGas (effective_gasPrice fd) (nativePrice env)
              in case calculateExpectedProfit env opp of
                   Inl e \<Rightarrow> Inl e
                 | Inr profit \<Rightarrow>
                     (let net = number_sub (number_sub (grossProfitUSD profit) gasCost)
                                  (flashLoanCostUSD profit)
                      in Inr \<lparr>success = number_gt net (number_of_int 0), sim_error = None,
                               gasUsed = Some totalGas, gasCostUSD = Some gasCost,
                               netProfitUSD = Some net, profitDetails = Some profit,
                               netProfitPercent = None\<rparr>)))"

text \<open>
  \<open>performTenderlySimulation\<close> throws without an API key. With one it builds the payload,
  whose \<open>input\<close> is \<open>this.encodeArbitrageCall(opportunity)\<close> (the calculator's own copy reads
  the last hop as the builder's does), and then evaluates \<open>axios.post(...)\<close>. The module
  binds no \<open>axios\<close>: the reference raises a ReferenceError, whose message is
  \<open>axios is not defined\<close>, and the statements after it, which would read the simulator's
  answer and call the equally absent \<open>this.getFeeData\<close>, never run. The \<open>catch\<close> rethrows.
\<close>

definition buildTenderlySimulationPayload :: "opportunity \<Rightarrow> sim_env \<Rightarrow> js_error + string" where
  "buildTenderlySimulationPayload opp env = encodeArbitrageCall opp (encodedCall env)"

definition performTenderlySimulation :: "opportunity \<Rightarrow> sim_env \<Rightarrow> js_error + simulation" where
  "performTenderlySimulation opp env =
     (if tenderlyApiKey env
      then (case buildTenderlySimulationPayload opp env of
              Inl e \<Rightarrow> Inl e
            | Inr simulationPayload \<Rightarrow> Inl (Error ''axios is not defined''))
      else Inl (Error ''Tenderly API key not configured''))"

text \<open>
  \<open>simulateTransaction\<close>: the local path in test mode; otherwise the remote path, and the
  local one when the remote path throws; any exception left gives
  \<open>{ success: false, error, gasUsed: 0 }\<close>.
\<close>

fun error_text :: "js_error \<Rightarrow> string" where
  "error_text TypeError = ''TypeError''"
| "error_text RangeError = ''RangeError''"
| "error_text (Error msg) = msg"

definition simulation_failed :: "js_error \<Rightarrow> simulation" where
  "simulation_failed e = \<lparr>success = False, sim_error = Some (error_text e), gasUsed = Some 0,
                           gasCostUSD = None, netProfitUSD = None, profitDetails = None,
                           netProfitPercent = None\<rparr>"

definition simulateTransaction :: "opportunity \<Rightarrow> sim_env \<Rightarrow> simulation" where
  "simulateTransaction opp env =
     (if provider_available env
      then (if testMode env
            then (case performLocalSimulation opp env of
                    Inl e \<Rightarrow> simulation_failed e
                  | Inr s \<Rightarrow> s)
            else (case performTenderlySimulation opp env of
                    Inr s \<Rightarrow> s
                  | Inl e \<Rightarrow>
                      (case performLocalSimulation opp env of
                         Inl e' \<Rightarrow> simulation_failed e'
                       | Inr s \<Rightarrow> s)))
      else simulation_failed TypeError)"

text \<open>
  A round trip of one WETH through USDC that returns 1.0025 WETH, with WETH at 1800 USD,
  a gas price of 0.1 Gwei, the default premium of 9 basis points and the smallest
  slippage estimate.
\<close>

definition example_opportunity :: opportunity where
  "example_opportunity =
     \<lparr>opp_type = ''triangular'',
      path = [\<lparr>fromToken = ''0x4200000000000000000000000000000000000006'',
               toToken = ''0x833589fCD6eDb6E08f4c7C32D4f71b54bdA02913'',
               amount = 1000000000000000000, outputAmount = 1825000000,
               dex = Some ''Aerodrome'', aggregator = None, hop_gasEstimate = None\<rparr>,
              \<lparr>fromToken = ''0x833589fCD6eDb6E08f4c7C32D4f71b54bdA02913'',
               toToken = ''0x4200000000000000000000000000000000000006'',
               amount = 1825000000, outputAmount = 1002500000000000000,
               dex = Some ''PancakeSwap'', aggregator = None, hop_gasEstimate = None\<rparr>],
      opp_amount = 1000000000000000000, expectedProfit = 2500000000000000,
      profitPercent = 0.25\<rparr>"

definition example_sim_env :: sim_env where
  "example_sim_env =
     \<lparr>provider_available = True, testMode = False, routerEstimates = [None, None],
      feeData = Inr \<lparr>fd_gasPrice = Some 100000000, fd_maxFeePerGas = None\<rparr>,
      nativePrice = Some (number_of_int 1800),
      priceUSD_of = (\<lambda>t. if t = ''0x4200000000000000000000000000000000000006''
                           then Some (number_of_int 1800)
                           else if t = ''0x833589fCD6eDb6E08f4c7C32D4f71b54bdA02913''
                           then Some (number_of_int 1) else None),
      decimals_of = (\<lambda>t. if t = ''0x833589fCD6eDb6E08f4c7C32D4f71b54bdA02913'' then 6 else 18),
      slippage_of = (\<lambda>h. decimal 1 4),
      flashLoanPremiumBps = None,
      tenderlyApiKey = True,
      encodedCall = Inr ''0x5c3f''\<rparr>"

section \<open>Orchestrator: evaluation and execution\<close>

text \<open>
  The two configuration values \<open>evaluateOpportunity\<close> reads, and a candidate of a scan
  cycle: the opportunity, the properties of the scanner's object that the orchestrator
  and the logger read beside the path (\<open>netProfitUSD\<close>, which is also the sort key,
  \<open>grossProfitUSD\<close>, \<open>gasCostUSD\<close> and \<open>slippageBufferUSD\<close>, each \<open>None\<close> when the object has no
  such property), and what the outside answers while the candidate is processed: the
  readings of the Profit Accountant during \<open>calculateNetProfit\<close> and during
  \<open>simulateTransaction\<close>, \<open>checkOpportunity(...).safe\<close>, the gas price in Gwei from the gas
  optimizer, and \<open>executeOpportunity(...).success\<close>; the last three either a value or an
  exception.
\<close>

record bot_config =
  maxGasPriceGwei :: js_double
  minProfitThresholdUSD :: js_double

record candidate =
  c_opportunity :: opportunity
  prior_netProfitUSD :: "js_double option"
  prior_grossProfitUSD :: "js_double option"
  prior_gasCostUSD :: "js_double option"
  prior_slippageBufferUSD :: "js_double option"
  profit_env :: sim_env
  mevSafe :: "js_error + bool"
  gasPriceGwei :: "js_error + js_double"
  simulation_env :: sim_env
  execution :: "js_error + bool"

text \<open>
  \<open>ConfigValidator.validateOpportunity\<close>: \<open>isValid\<close> is \<open>errors.length === 0\<close>. An empty
  path is an error; so is a hop with an empty token, with a token \<open>ethers.isAddress\<close>
  rejects, or with an amount that is not positive; so is a \<open>netProfitUSD\<close> that is absent,
  falsy or below the threshold.
\<close>

definition hop_valid :: "(string \<Rightarrow> bool) \<Rightarrow> hop \<Rightarrow> bool" where
  "hop_valid isAddress h =
     (if fromToken h = [] then False
      else if toToken h = [] then False
      else if isAddress (fromToken h)
           then (if isAddress (toToken h) then 0 < amount h else False)
           else False)"

definition validateOpportunity :: "bot_config \<Rightarrow> (string \<Rightarrow> bool) \<Rightarrow> candidate \<Rightarrow> bool" where
  "validateOpportunity cfg isAddress c =
     (if path (c_opportunity c) = [] then False
      else if list_all (hop_valid isAddress) (path (c_opportunity c))
           then (case prior_netProfitUSD c of
                   None \<Rightarrow> False
                 | Some n \<Rightarrow>
                     if number_truthy n
                     then (if number_lt n (minProfitThresholdUSD cfg) then False else True)
                     else False)
           else False)"

text \<open>
  \<open>estimateGasCost\<close> with no simulated gas: the gas of \<open>estimateTransactionGas\<close> at the
  network's price, in USD; every exception inside gives the fallback 10.
  \<open>calculateNetProfit\<close>: the gross profit minus gas cost, flash-loan cost and slippage
  buffer, and \<open>meetsThreshold\<close>, which is \<open>netProfitUSD >= config.minProfitThresholdUSD\<close>.
  It reads \<open>path[0].fromToken\<close> and rethrows what it catches.
\<close>

definition estimateGasCost :: "sim_env \<Rightarrow> opportunity \<Rightarrow> js_double" where
  "estimateGasCost env opp =
     (if provider_available env
      then (case feeData env of
              Inl e \<Rightarrow> number_of_int 10
            | Inr fd \<Rightarrow>
                (case estimateTransactionGas opp of
                   Inl e \<Rightarrow> number_of_int 10
                 | Inr g \<Rightarrow> gas_cost_usd g (effective_gasPrice fd) (nativePrice env)))
      else number_of_int 10)"

record profit_breakdown =
  pb_netProfitUSD :: js_double
  meetsThreshold :: bool

definition calculateNetProfit ::
  "bot_config \<Rightarrow> sim_env \<Rightarrow> opportunity \<Rightarrow> js_error + profit_breakdown" where
  "calculateNetProfit cfg env opp =
     (if path opp = [] then Inl TypeError
      else (let inputAmount = opp_amount opp;
                inputToken = fromToken (hd (path opp));
                inputValue = calculateUSDValue env inputAmount inputToken
                               (priceUSD_of env inputToken);
                outputToken = toToken (last (path opp));
                outputValue = calculateUSDValue env (outputAmount (last (path opp))) outputToken
                                (priceUSD_of env outputToken);
                gross = number_sub outputValue inputValue;
                gasCost = estimateGasCost env opp;
                flashLoanCost = calculateFlashLoanCost env inputAmount inputToken
                                  (priceUSD_of env inputToken);
                slippageBuffer = calculateSlippageBuffer env (path opp);
                net = number_sub (number_sub (number_sub gross gasCost) flashLoanCost)
                        slippageBuffer
            in Inr \<lparr>pb_netProfitUSD = net,
                     meetsThreshold = number_ge net (minProfitThresholdUSD cfg)\<rparr>))"

text \<open>
  \<open>Logger.logOpportunity\<close> prints the opportunity. Its first four template strings call
  \<open>toFixed\<close> on \<open>grossProfitUSD\<close>, then on \<open>netProfitUSD\<close> and \<open>netProfitPercent\<close>, then on
  \<open>gasCostUSD\<close>, then on \<open>slippageBufferUSD\<close>: a TypeError at the first of them that is
  \<open>undefined\<close>. What it prints after these is left out.
\<close>

definition logOpportunity ::
  "js_double option \<Rightarrow> js_double option \<Rightarrow> js_double option \<Rightarrow> js_double option \<Rightarrow>
   js_double option \<Rightarrow> js_error + unit" where
  "logOpportunity gross net percent gasCost slippageBuffer =
     (case gross of
        None \<Rightarrow> Inl TypeError
      | Some g \<Rightarrow>
          (case net of
             None \<Rightarrow> Inl TypeError
           | Some n \<Rightarrow>
               (case percent of
                  None \<Rightarrow> Inl TypeError
                | Some p \<Rightarrow>
                    (case gasCost of
                       None \<Rightarrow> Inl TypeError
                     | Some c \<Rightarrow>
                         (case slippageBuffer of
                            None \<Rightarrow> Inl TypeError
                          | Some b \<Rightarrow> Inr ())))))"

text \<open>
  \<open>evaluateOpportunity\<close> returns \<open>true\<close> at one place, after the logger, and \<open>false\<close> at
  every gate and in its \<open>catch\<close>. The outcome names the place; \<open>returns_true\<close> is the
  boolean the function returns. After a successful simulation the opportunity's
  \<open>netProfitUSD\<close> and \<open>netProfitPercent\<close> are overwritten with the simulation's, the final
  check compares \<open>opportunity.netProfitUSD < config.minProfitThresholdUSD * 1.5\<close> (false
  for an absent value), and the logger is called on the opportunity as it then is.
\<close>

datatype evaluation =
    BelowThreshold
  | MevBlocked
  | GasPriceTooHigh
  | SimulationFailed
  | BorderlineProfit
  | EvaluationFailed js_error
  | Approved

fun returns_true :: "evaluation \<Rightarrow> bool" where
  "returns_true Approved = True"
| "returns_true outcome = False"

definition below_margin :: "bot_config \<Rightarrow> js_double option \<Rightarrow> bool" where
  "below_margin cfg net =
     (case net of
        None \<Rightarrow> False
      | Some n \<Rightarrow> number_lt n (number_mul (minProfitThresholdUSD cfg) (decimal 15 1)))"

definition evaluateOpportunity :: "bot_config \<Rightarrow> candidate \<Rightarrow> evaluation" where
  "evaluateOpportunity cfg c =
     (case calculateNetProfit cfg (profit_env c) (c_opportunity c) of
        Inl e \<Rightarrow> EvaluationFailed e
      | Inr profitable \<Rightarrow>
          if meetsThreshold profitable
          then (case mevSafe c of
                  Inl e \<Rightarrow> EvaluationFailed e
                | Inr safe \<Rightarrow>
                    if safe
                    then (case gasPriceGwei c of
                            Inl e \<Rightarrow> EvaluationFailed e
                          | Inr g \<Rightarrow>
                              if number_gt g (maxGasPriceGwei cfg) then GasPriceTooHigh
                              else (let simulated = simulateTransaction (c_opportunity c)
                                                      (simulation_env c)
                                    in if success simulated
                                       then (if below_margin cfg (netProfitUSD simulated)
                                             then BorderlineProfit
                                             else (case logOpportunity (prior_grossProfitUSD c)
                                                          (netProfitUSD simulated)
                                                          (netProfitPercent simulated)
                                                          (prior_gasCostUSD c)
                                                          (prior_slippageBufferUSD c) of
                                                     Inl e \<Rightarrow> EvaluationFailed e
                                                   | Inr u \<Rightarrow> Approved))
                                       else SimulationFailed))
                    else MevBlocked)
          else BelowThreshold)"

text \<open>
  \<open>GasOptimizer.shouldWaitForBetterGas(opportunity)\<close> reads \<open>opportunity.netProfitUSD\<close>
  after its two awaited readings; called without an argument it raises a TypeError there.
  The decision it reaches when it has an opportunity is an input.
\<close>

definition shouldWaitForBetterGas :: "candidate option \<Rightarrow> bool \<Rightarrow> js_error + bool" where
  "shouldWaitForBetterGas opportunityArg decision =
     (case opportunityArg of None \<Rightarrow> Inl TypeError | Some c \<Rightarrow> Inr decision)"

text \<open>
  \<open>scanCycle\<close> first awaits \<open>this.gasOptimizer.shouldWaitForBetterGas()\<close>, without an
  argument, and rethrows what it catches. Past it, unless the check says wait, the
  candidates are sorted in place by \<open>(b.netProfitUSD || 0) - (a.netProfitUSD || 0)\<close> (a
  stable sort; a NaN difference counts as 0), the first five are processed in order, those
  that fail the validation are skipped, and the loop stops after the first successful
  execution. \<open>process_candidates\<close> is that loop: its result is the list of candidates
  handed to \<open>executeOpportunity\<close>, which passes them to the Transaction Builder.
\<close>

definition sort_key :: "candidate \<Rightarrow> js_double" where
  "sort_key c =
     (case prior_netProfitUSD c of
        None \<Rightarrow> number_of_int 0
      | Some n \<Rightarrow> if number_truthy n then n else number_of_int 0)"

fun insert_desc :: "candidate \<Rightarrow> candidate list \<Rightarrow> candidate list" where
  "insert_desc x [] = [x]"
| "insert_desc x (y # ys) =
     (if number_gt (number_sub (sort_key y) (sort_key x)) (number_of_int 0)
      then y # insert_desc x ys else x # y # ys)"

definition sort_desc :: "candidate list \<Rightarrow> candidate list" where
  "sort_desc cs = foldr insert_desc cs []"

fun process_candidates ::
  "bot_config \<Rightarrow> (string \<Rightarrow> bool) \<Rightarrow> candidate list \<Rightarrow> candidate list" where
  "process_candidates cfg isAddress [] = []"
| "process_candidates cfg isAddress (c # cs) =
     (if validateOpportunity cfg isAddress c
      then (if returns_true (evaluateOpportunity cfg c)
            then c # (case execution c of
                        Inl e \<Rightarrow> process_candidates cfg isAddress cs
                      | Inr ok \<Rightarrow> if ok then [] else process_candidates cfg isAddress cs)
            else process_candidates cfg isAddress cs)
      else process_candidates cfg isAddress cs)"

definition scanCycle ::
  "bot_config \<Rightarrow> (string \<Rightarrow> bool) \<Rightarrow> bool \<Rightarrow> candidate list \<Rightarrow> js_error + candidate list" where
  "scanCycle cfg isAddress decision opportunities =
     (case shouldWaitForBetterGas None decision of
        Inl e \<Rightarrow> Inl e
      | Inr gasCheck_wait \<Rightarrow>
          if gasCheck_wait then Inr []
          else if length opportunities > 0
               then Inr (process_candidates cfg isAddress (take 5 (sort_desc opportunities)))
               else Inr [])"

text \<open>
  The example round trip as a candidate, with a threshold of 2 USD and hence a margin of
  3 USD; its net profit is 2.163 USD before and 2.826 USD after the simulation.
\<close>

definition example_config :: bot_config where
  "example_config = \<lparr>maxGasPriceGwei = number_of_int 100, minProfitThresholdUSD = number_of_int 2\<rparr>"

definition example_candidate :: candidate where
  "example_candidate =
     \<lparr>c_opportunity = example_opportunity,
      prior_netProfitUSD = Some (decimal 2163 3),
      prior_grossProfitUSD = None,
      prior_gasCostUSD = None,
      prior_slippageBufferUSD = None,
      profit_env = example_sim_env,
      mevSafe = Inr True,
      gasPriceGwei = Inr (decimal 5 2),
      simulation_env = example_sim_env,
      execution = Inr True\<rparr>"

section \<open>Opportunity Scanner: validation\<close>

text \<open>
  The scanner's own simulation returns an object literal, and the validation reads
  properties of it by name. The object is modelled as its list of properties; reading a
  property it does not have gives \<open>undefined\<close>. A Number here is a real or one of the
  special values a division by zero produces.
\<close>

datatype js_value = Undefined | JBool bool | Num real | PosInfinity | NegInfinity | NaN | Text string

type_synonym js_object = "(string \<times> js_value) list"

definition js_get :: "js_object \<Rightarrow> string \<Rightarrow> js_value" where
  "js_get obj k = (case map_of obj k of None \<Rightarrow> Undefined | Some v \<Rightarrow> v)"

text \<open>
  Truthiness, the comparison \<open>v > c\<close> with a Number constant (\<open>undefined\<close> converts to NaN,
  and every comparison with NaN is false; the only text in the object is an error message,
  which no comparison reads), division of Numbers, and multiplication by a positive
  constant.
\<close>

fun js_truthy :: "js_value \<Rightarrow> bool" where
  "js_truthy Undefined = False"
| "js_truthy (JBool b) = b"
| "js_truthy (Num x) = (x \<noteq> 0)"
| "js_truthy PosInfinity = True"
| "js_truthy NegInfinity = True"
| "js_truthy NaN = False"
| "js_truthy (Text s) = (s \<noteq> [])"

fun js_greater :: "js_value \<Rightarrow> real \<Rightarrow> bool" where
  "js_greater (Num x) c = (x > c)"
| "js_greater PosInfinity c = True"
| "js_greater (JBool b) c = ((if b then 1 else 0) > c)"
| "js_greater NegInfinity c = False"
| "js_greater NaN c = False"
| "js_greater Undefined c = False"
| "js_greater (Text s) c = False"

definition js_divide :: "real \<Rightarrow> real \<Rightarrow> js_value" where
  "js_divide a b =
     (if b \<noteq> 0 then Num (a / b)
      else if a > 0 then PosInfinity
      else if a < 0 then NegInfinity
      else NaN)"

fun js_scale :: "js_value \<Rightarrow> real \<Rightarrow> js_value" where
  "js_scale (Num x) c = Num (x * c)"
| "js_scale v c = v"

text \<open>
  \<open>OpportunityScanner.simulateOpportunity\<close>. \<open>fee\<close> is what \<open>provider.getFeeData()\<close>
  answers: an exception, or its \<open>gasPrice\<close> (\<open>None\<close> for \<open>null\<close>). The reduction
  \<open>sum + (hop.gasEstimate || 50000)\<close> starts from the Number 0, so a non-zero BigInt
  estimate raises a TypeError; \<open>BigInt(gasCost)\<close> raises a RangeError on a non-integer.
  Every exception is caught and gives \<open>{ success: false, error }\<close>.
\<close>

fun gas_reduce :: "real \<Rightarrow> hop list \<Rightarrow> js_error + real" where
  "gas_reduce s [] = Inr s"
| "gas_reduce s (h # hs) =
     (case hop_gasEstimate h of
        None \<Rightarrow> gas_reduce (s + 50000) hs
      | Some (Number g) \<Rightarrow> gas_reduce (s + (if g = 0 then 50000 else g)) hs
      | Some (BigInt g) \<Rightarrow> if g = 0 then gas_reduce (s + 50000) hs else Inl TypeError)"

definition to_BigInt :: "real \<Rightarrow> js_error + int" where
  "to_BigInt x = (if x = real_of_int \<lfloor>x\<rfloor> then Inr \<lfloor>x\<rfloor> else Inl RangeError)"

definition simulation_error :: "js_error \<Rightarrow> js_object" where
  "simulation_error e = [(''success'', JBool False), (''error'', Text (error_text e))]"

definition simulateOpportunity :: "(js_error + int option) \<Rightarrow> opportunity \<Rightarrow> js_object" where
  "simulateOpportunity fee opp =
     (case fee of
        Inl e \<Rightarrow> simulation_error e
      | Inr gasPrice \<Rightarrow>
          (case gas_reduce 0 (path opp) of
             Inl e \<Rightarrow> simulation_error e
           | Inr gasCost \<Rightarrow>
               (case to_BigInt gasCost of
                  Inl e \<Rightarrow> simulation_error e
                | Inr gasCostBig \<Rightarrow>
                    (case gasPrice of
                       None \<Rightarrow> simulation_error TypeError
                     | Some gp \<Rightarrow>
                         (let gasCostUSD = real_of_int (gp * gasCostBig) / 10 ^ 18 * 1800;
                              profitUSD = real_of_int (expectedProfit opp) / 10 ^ 18 * 1800;
                              netProfitUSD = profitUSD - gasCostUSD;
                              netProfitPercent =
                                js_scale (js_divide netProfitUSD
                                            (real_of_int (opp_amount opp) / 10 ^ 18 * 1800)) 100
                          in [(''success'', JBool (js_greater netProfitPercent 0)),
                              (''profitUSD'', Num profitUSD),
                              (''gasCostUSD'', Num gasCostUSD),
                              (''netProfitUSD'', Num netProfitUSD),
                              (''netProfitPercent'', netProfitPercent),
                              (''gasUsed'', Num gasCost)])))))"

text \<open>
  \<open>validateOpportunities\<close>: each opportunity comes with the fee answer of its simulation.
  The condition is \<open>simulated.success && simulated.profitPercent > 0.05\<close>.
\<close>

fun validateOpportunities ::
  "(opportunity \<times> (js_error + int option)) list \<Rightarrow> (opportunity \<times> js_object) list" where
  "validateOpportunities [] = []"
| "validateOpportunities ((opp, fee) # rest) =
     (let simulated = simulateOpportunity fee opp
      in if js_truthy (js_get simulated ''success'') \<and>
            js_greater (js_get simulated ''profitPercent'') 0.05
         then (opp, simulated) # validateOpportunities rest
         else validateOpportunities rest)"

section \<open>Opportunity Scanner: the three families\<close>











text \<open>
  Multi-hop. \<open>findProfitablePaths\<close> returns objects with the properties \<open>path\<close>, \<open>profit\<close>
  and \<open>hops\<close>; \<open>optimizePath\<close> starts from \<open>path.amount\<close>, which is \<open>undefined\<close>, re-prices
  every step, and computes \<open>finalAmount - path.amount\<close>: a TypeError for a BigInt final
  amount, caught and answered with \<open>null\<close>, and NaN when there was no step. The search
  itself is a parameter: the result holds whatever paths it finds.
  \<open>scanMultiHopArbitrage\<close> keeps an optimized path when its \<open>profitPercent > 0.1\<close>.
\<close>

record found_path =
  fp_path :: "hop list"
  fp_profit :: int
  fp_hops :: nat











section \<open>Theorems\<close>

subsection \<open>Numbers: known values\<close>

text \<open>
  The arithmetic of \<open>js_double\<close> on values whose doubles are well known: the literal 0.1,
  the sum 0.1 + 0.2 (0.30000000000000004), the quotient 1 / 3, the square root of 2, the
  product 0.7 * 100 (70, after rounding), a quotient below the smallest subnormal number
  and a product beyond the largest double.
\<close>

lemma double_known_values:
  "decimal 1 1 = Double 3602879701896397 (- 55)"
  "number_add (decimal 1 1) (decimal 2 1) = Double 1351079888211149 (- 52)"
  "number_div (number_of_int 1) (number_of_int 3) = Double 6004799503160661 (- 54)"
  "Math_sqrt (number_of_int 2) = Double 6369051672525773 (- 52)"
  "number_mul (decimal 7 1) (number_of_int 100) = Double 35 1"
  "number_div (Double 1 (- 1074)) (number_of_int 2) = Double 0 0"
  "number_mul (round_double 1 1 1000) (round_double 1 1 24) = PlusInfinity"
  by code_simp+

subsection \<open>Profit Accountant: gas estimate\<close>

lemma estimateSwapGas_dvd:
  "estimateSwapGas h = Inr g \<Longrightarrow> 1000 dvd g"
  by (auto simp: estimateSwapGas_def split: if_splits option.splits)

lemma gas_forEach_total:
  "map estimateSwapGas hs = map Inr gs \<Longrightarrow>
   gas_forEach index hs (b, s) =
     Inr (if index = 0 \<and> hs \<noteq> [] then b + 100000 else b, s + sum_list gs)"
proof (induction hs arbitrary: index gs b s)
  case Nil
  then show ?case by simp
next
  case (Cons h hs)
  then obtain g gs' where gs: "gs = g # gs'" "estimateSwapGas h = Inr g"
    "map estimateSwapGas hs = map Inr gs'"
    by (cases gs) auto
  from Cons.IH [OF gs(3), of "Suc index"] gs(1,2) show ?case
    by (simp add: Let_def)
qed

lemma sum_list_dvd:
  "(\<And>g. g \<in> set gs \<Longrightarrow> (k::int) dvd g) \<Longrightarrow> k dvd sum_list gs"
  by (induction gs) auto

lemma sdiv_100_exact: "((a::int) * 100) sdiv 100 = a"
  by (simp add: signed_divide_int_def sgn_mult abs_mult flip: abs_sgn) (metis mult_sgn_abs)

text \<open>
  Claim C4, as the code has it. With no simulated gas value, the gas figure of the Profit
  Accountant is \<open>(21000 + 100000 + \<Sum> swap gas + 250000) * 150 / 100\<close> for a path with at
  least one hop: the loop adds a first-hop overhead of 100000 to the base gas, which the
  claim leaves out. For the empty path the overhead is absent. Every term is a multiple of
  1000, so the BigInt division by 100 is exact and the result is 1.5 times the sum.
\<close>

theorem estimateTransactionGas_first_hop_overhead:
  assumes "map estimateSwapGas (path opp) = map Inr gs"
  shows "\<exists>r. totalGas opp None = Inr r \<and>
             2 * r = 3 * (21000 + (if path opp = [] then 0 else 100000) + sum_list gs + 250000)"
proof -
  let ?extra = "if path opp = [] then 0 else (100000::int)"
  have fe: "gas_forEach 0 (path opp) (21000, 0) = Inr (21000 + ?extra, sum_list gs)"
    using gas_forEach_total [OF assms, of 0 21000 0] by simp
  have "\<And>g. g \<in> set gs \<Longrightarrow> 1000 dvd g"
  proof -
    fix g assume "g \<in> set gs"
    then have "Inr g \<in> set (map estimateSwapGas (path opp))"
      using assms by simp
    then obtain h where "estimateSwapGas h = Inr g" by auto
    then show "1000 dvd g" by (rule estimateSwapGas_dvd)
  qed
  then have "1000 dvd sum_list gs" by (rule sum_list_dvd)
  then obtain m where m: "sum_list gs = 1000 * m" by (auto simp: dvd_def)
  let ?T = "21000 + ?extra + sum_list gs + 250000"
  have T: "?T * 150 = (1500 * (271 + (if path opp = [] then 0 else 100) + m)) * 100"
    using m by simp
  have "(?T * 150) sdiv 100 = 1500 * (271 + (if path opp = [] then 0 else 100) + m)"
    unfolding T by (rule sdiv_100_exact)
  then show ?thesis
    using fe m by (simp add: totalGas_def estimateTransactionGas_def)
qed

theorem estimateTransactionGas_first_hop_overhead_witness:
  "\<exists>r. totalGas \<lparr>opp_type = ''triangular'',
              path = [\<lparr>fromToken = ''WETH'', toToken = ''USDC'', amount = 1000,
                       outputAmount = 1825, dex = Some ''Aerodrome'', aggregator = None,
                       hop_gasEstimate = None\<rparr>],
              opp_amount = 1000, expectedProfit = 2, profitPercent = 0.2\<rparr> None = Inr r
        \<and> 2 * r = 3 * (21000 + 100000 + 150000 + 250000)"
  using estimateTransactionGas_first_hop_overhead [of
      "\<lparr>opp_type = ''triangular'',
         path = [\<lparr>fromToken = ''WETH'', toToken = ''USDC'', amount = 1000,
                  outputAmount = 1825, dex = Some ''Aerodrome'', aggregator = None,
                       hop_gasEstimate = None\<rparr>],
         opp_amount = 1000, expectedProfit = 2, profitPercent = 0.2\<rparr>" "[150000]"]
  by (simp add: estimateSwapGas_def)

text \<open>
  Claim C4 as stated fails on a path of one Aerodrome hop: the hop's swap gas is 150000,
  the claim's formula gives 631500, the code returns 781500.
\<close>

theorem estimateTransactionGas_counterexample:
  "estimateSwapGas \<lparr>fromToken = ''WETH'', toToken = ''USDC'', amount = 1000,
                    outputAmount = 1825, dex = Some ''Aerodrome'', aggregator = None,
                       hop_gasEstimate = None\<rparr>
     = Inr 150000
   \<and> totalGas \<lparr>opp_type = ''triangular'',
               path = [\<lparr>fromToken = ''WETH'', toToken = ''USDC'', amount = 1000,
                        outputAmount = 1825, dex = Some ''Aerodrome'', aggregator = None,
                       hop_gasEstimate = None\<rparr>],
               opp_amount = 1000, expectedProfit = 2, profitPercent = 0.2\<rparr> None
     = Inr 781500
   \<and> spec_transaction_gas [150000] = 631500"
  by (simp add: estimateSwapGas_def totalGas_def estimateTransactionGas_def
      spec_transaction_gas_def signed_divide_int_def)

subsection \<open>Transaction Builder: fee cap\<close>






subsection \<open>Aggregator Client: route validation\<close>

lemma validateRouteResponse_iff:
  "(\<exists>b. validateRouteResponse route agg = Inr b) \<longleftrightarrow> (\<exists>r. route = Some r \<and> code_valid_route r)"
  by (auto simp: validateRouteResponse_def code_valid_route_def Let_def split: option.splits)

lemma validateRouteResponse_rejects:
  "\<not> code_valid_route r \<Longrightarrow> \<exists>e. validateRouteResponse (Some r) agg = Inl e"
  using validateRouteResponse_iff [of "Some r" agg]
  by (cases "validateRouteResponse (Some r) agg") auto

lemma getRoute_returns_valid:
  assumes inv: "\<forall>q \<in> ran cache. code_valid_route q"
    and g: "getRoute cache agg f t amt fetched = (Inr r, cache')"
  shows "code_valid_route r \<and> (\<forall>q \<in> ran cache'. code_valid_route q)"
proof (cases "cache (route_cacheKey agg f t amt)")
  case (Some c)
  with g have "r = c" "cache' = cache" by (auto simp: getRoute_def)
  with inv Some show ?thesis by (auto simp: ran_def)
next
  case None
  with g obtain ok where v: "validateRouteResponse (Some r) agg = Inr ok"
    and c: "cache' = cache(route_cacheKey agg f t amt \<mapsto> r)"
    by (auto simp: getRoute_def Let_def split: if_splits sum.splits option.splits)
  from v have "code_valid_route r" using validateRouteResponse_iff [of "Some r" agg] by auto
  moreover have "ran cache' \<subseteq> insert r (ran cache)"
    unfolding c using None by (auto simp: ran_def)
  ultimately show ?thesis using inv by auto
qed

lemma getRoute_rejects_invalid:
  assumes "cache (route_cacheKey agg f t amt) = None" "agg \<in> set supported_aggregators"
    "\<not> code_valid_route q"
  shows "\<exists>e. getRoute cache agg f t amt (Inr (Some q)) = (Inl e, cache)"
  using assms validateRouteResponse_rejects [of q agg]
  by (auto simp: getRoute_def Let_def)

text \<open>
  Claim C8, as the code has it. Starting from a cache that holds validated routes only
  (the empty cache does, and \<open>getRoute\<close> keeps it so), every route \<open>getRoute\<close> returns has
  a return amount of at least 100 and a non-empty hop list; a freshly fetched route that
  violates one of these two conditions makes \<open>getRoute\<close> throw and is not cached. The gas
  estimate is not among the checks.
\<close>

theorem getRoute_validated:
  "(\<forall>q \<in> ran cache. code_valid_route q) \<longrightarrow>
     (\<forall>r cache'. getRoute cache agg f t amt fetched = (Inr r, cache') \<longrightarrow>
        code_valid_route r \<and> (\<forall>q \<in> ran cache'. code_valid_route q)) \<and>
     (\<forall>q. cache (route_cacheKey agg f t amt) = None \<and> \<not> code_valid_route q \<longrightarrow>
        (\<exists>e. getRoute cache agg f t amt (Inr (Some q)) = (Inl e, cache)))"
proof (cases "agg \<in> set supported_aggregators")
  case True
  then show ?thesis
    using getRoute_returns_valid [of cache agg f t amt fetched]
      getRoute_rejects_invalid [of cache agg f t amt] by blast
next
  case False
  then have "\<And>q. cache (route_cacheKey agg f t amt) = None \<Longrightarrow>
     \<exists>e. getRoute cache agg f t amt (Inr (Some q)) = (Inl e, cache)"
    by (simp add: getRoute_def)
  then show ?thesis
    using getRoute_returns_valid [of cache agg f t amt fetched] by blast
qed

theorem getRoute_validated_witness:
  "fst (getRoute Map.empty ''odos'' ''0xWETH'' ''0xUSDC'' ''1000000''
       (Inr (Some \<lparr>route_aggregator = ''odos'', returnAmount = Some 1825,
                   route_path = Some [\<lparr>step_dex = ''pool'', step_from = ''0xWETH'',
                                       step_to = ''0xUSDC''\<rparr>],
                   gasEstimate = Number 185000, priceImpact = 0\<rparr>))) =
       Inr \<lparr>route_aggregator = ''odos'', returnAmount = Some 1825,
                   route_path = Some [\<lparr>step_dex = ''pool'', step_from = ''0xWETH'',
                                       step_to = ''0xUSDC''\<rparr>],
                   gasEstimate = Number 185000, priceImpact = 0\<rparr>
   \<and> code_valid_route \<lparr>route_aggregator = ''odos'', returnAmount = Some 1825,
                   route_path = Some [\<lparr>step_dex = ''pool'', step_from = ''0xWETH'',
                                       step_to = ''0xUSDC''\<rparr>],
                   gasEstimate = Number 185000, priceImpact = 0\<rparr>
   \<and> (\<exists>e. getRoute Map.empty ''odos'' ''0xWETH'' ''0xUSDC'' ''1000000''
       (Inr (Some \<lparr>route_aggregator = ''odos'', returnAmount = Some 99,
                   route_path = Some [\<lparr>step_dex = ''pool'', step_from = ''0xWETH'',
                                       step_to = ''0xUSDC''\<rparr>],
                   gasEstimate = Number 185000, priceImpact = 0\<rparr>)) = (Inl e, Map.empty))"
proof -
  have inv: "\<forall>q \<in> ran (Map.empty :: string \<rightharpoonup> route). code_valid_route q" by simp
  have nv: "\<not> code_valid_route \<lparr>route_aggregator = ''odos'', returnAmount = Some 99,
                   route_path = Some [\<lparr>step_dex = ''pool'', step_from = ''0xWETH'',
                                       step_to = ''0xUSDC''\<rparr>],
                   gasEstimate = Number 185000, priceImpact = 0\<rparr>"
    by (simp add: code_valid_route_def)
  have ret: "getRoute Map.empty ''odos'' ''0xWETH'' ''0xUSDC'' ''1000000''
       (Inr (Some \<lparr>route_aggregator = ''odos'', returnAmount = Some 1825,
                   route_path = Some [\<lparr>step_dex = ''pool'', step_from = ''0xWETH'',
                                       step_to = ''0xUSDC''\<rparr>],
                   gasEstimate = Number 185000, priceImpact = 0\<rparr>)) =
       (Inr \<lparr>route_aggregator = ''odos'', returnAmount = Some 1825,
                   route_path = Some [\<lparr>step_dex = ''pool'', step_from = ''0xWETH'',
                                       step_to = ''0xUSDC''\<rparr>],
                   gasEstimate = Number 185000, priceImpact = 0\<rparr>,
        [route_cacheKey ''odos'' ''0xWETH'' ''0xUSDC'' ''1000000'' \<mapsto>
           \<lparr>route_aggregator = ''odos'', returnAmount = Some 1825,
                   route_path = Some [\<lparr>step_dex = ''pool'', step_from = ''0xWETH'',
                                       step_to = ''0xUSDC''\<rparr>],
                   gasEstimate = Number 185000, priceImpact = 0\<rparr>])"
    by (simp add: getRoute_def validateRouteResponse_def supported_aggregators_def Let_def)
  have none: "(Map.empty :: string \<rightharpoonup> route)
      (route_cacheKey ''odos'' ''0xWETH'' ''0xUSDC'' ''1000000'') = None" by simp
  from getRoute_validated [of Map.empty "''odos''" "''0xWETH''" "''0xUSDC''" "''1000000''"
      "Inr (Some \<lparr>route_aggregator = ''odos'', returnAmount = Some 1825,
                   route_path = Some [\<lparr>step_dex = ''pool'', step_from = ''0xWETH'',
                                       step_to = ''0xUSDC''\<rparr>],
                   gasEstimate = Number 185000, priceImpact = 0\<rparr>)"] inv
  have both: "(\<forall>r cache'. getRoute Map.empty ''odos'' ''0xWETH'' ''0xUSDC'' ''1000000''
       (Inr (Some \<lparr>route_aggregator = ''odos'', returnAmount = Some 1825,
                   route_path = Some [\<lparr>step_dex = ''pool'', step_from = ''0xWETH'',
                                       step_to = ''0xUSDC''\<rparr>],
                   gasEstimate = Number 185000, priceImpact = 0\<rparr>)) = (Inr r, cache') \<longrightarrow>
        code_valid_route r \<and> (\<forall>q \<in> ran cache'. code_valid_route q))"
    and rej: "(\<forall>q. (Map.empty :: string \<rightharpoonup> route)
                 (route_cacheKey ''odos'' ''0xWETH'' ''0xUSDC'' ''1000000'') = None \<and>
               \<not> code_valid_route q \<longrightarrow>
        (\<exists>e. getRoute Map.empty ''odos'' ''0xWETH'' ''0xUSDC'' ''1000000'' (Inr (Some q))
               = (Inl e, Map.empty)))"
    by blast+
  from both ret have "code_valid_route \<lparr>route_aggregator = ''odos'', returnAmount = Some 1825,
                   route_path = Some [\<lparr>step_dex = ''pool'', step_from = ''0xWETH'',
                                       step_to = ''0xUSDC''\<rparr>],
                   gasEstimate = Number 185000, priceImpact = 0\<rparr>"
    by blast
  moreover from rej none nv have "\<exists>e. getRoute Map.empty ''odos'' ''0xWETH'' ''0xUSDC'' ''1000000''
       (Inr (Some \<lparr>route_aggregator = ''odos'', returnAmount = Some 99,
                   route_path = Some [\<lparr>step_dex = ''pool'', step_from = ''0xWETH'',
                                       step_to = ''0xUSDC''\<rparr>],
                   gasEstimate = Number 185000, priceImpact = 0\<rparr>)) = (Inl e, Map.empty)"
    by blast
  ultimately show ?thesis using ret by simp
qed

text \<open>
  Claim C8 as stated fails: a quote with return amount 1825, one hop and a gas estimate of 0
  (what \<open>getOdosRoute\<close> builds when the response carries no \<open>gasEstimate\<close>) is returned and
  cached, although its gas estimate is not strictly positive.
\<close>

theorem getRoute_zero_gas_counterexample:
  "getRoute Map.empty ''odos'' ''0xWETH'' ''0xUSDC'' ''1000000''
     (Inr (Some \<lparr>route_aggregator = ''odos'', returnAmount = Some 1825,
                 route_path = Some [\<lparr>step_dex = ''pool'', step_from = ''0xWETH'', step_to = ''0xUSDC''\<rparr>],
                 gasEstimate = Number 0, priceImpact = 0\<rparr>))
   = (Inr \<lparr>route_aggregator = ''odos'', returnAmount = Some 1825,
                 route_path = Some [\<lparr>step_dex = ''pool'', step_from = ''0xWETH'', step_to = ''0xUSDC''\<rparr>],
                 gasEstimate = Number 0, priceImpact = 0\<rparr>,
      [route_cacheKey ''odos'' ''0xWETH'' ''0xUSDC'' ''1000000'' \<mapsto>
         \<lparr>route_aggregator = ''odos'', returnAmount = Some 1825,
                 route_path = Some [\<lparr>step_dex = ''pool'', step_from = ''0xWETH'', step_to = ''0xUSDC''\<rparr>],
                 gasEstimate = Number 0, priceImpact = 0\<rparr>])
   \<and> \<not> spec_valid_quote \<lparr>route_aggregator = ''odos'', returnAmount = Some 1825,
                 route_path = Some [\<lparr>step_dex = ''pool'', step_from = ''0xWETH'', step_to = ''0xUSDC''\<rparr>],
                 gasEstimate = Number 0, priceImpact = 0\<rparr>"
  by (simp add: getRoute_def validateRouteResponse_def supported_aggregators_def Let_def
      spec_valid_quote_def)

subsection \<open>Alerts: cooldown per level\<close>

lemma critical_cooldown: "getCooldownForLevel ''critical'' = Seconds 60"
  by (simp add: getCooldownForLevel_def)

text \<open>
  Claim C9, at two overlapping calls. Both calls carry the key of a critical error and
  begin 5 ms apart; the second begins while the first waits for its send, finds no entry
  in the cooldown map and passes the gate as well. Both are dispatched on Telegram, 5 ms
  apart, where the cooldown of the level is 60 s. Had the first call ended before the
  second began, the second would have answered \<open>Cooldown active\<close>.
\<close>

theorem overlapping_alerts_both_dispatched:
  "alertKey (critical_error_call 1700000000000) = alertKey (critical_error_call 1700000000005) \<and>
   getCooldownForLevel (level (critical_error_call 1700000000005)) = Seconds 60 \<and>
   alert_run telegram_only new_alerting
     [Begins (critical_error_call 1700000000000), Begins (critical_error_call 1700000000005), Ends 0, Ends 0]
     = [None, None, Some (Dispatched [(''telegram'', True)]),
        Some (Dispatched [(''telegram'', True)])] \<and>
   alert_run telegram_only new_alerting
     [Begins (critical_error_call 1700000000000), Ends 0, Begins (critical_error_call 1700000000005)]
     = [None, Some (Dispatched [(''telegram'', True)]), Some CooldownActive]"
  by (simp add: alertKey_def critical_error_call_def telegram_only_def new_alerting_def
      sendAlert_begin_def sendAlert_end_def cooldown_active_def getCooldownForLevel_def
      lastAlert_def channels_for_def channel_results_def alert_channels_def
      shouldSendToChannel_def Let_def)

subsection \<open>RPC Transport: endpoint health\<close>

lemma find_healthy_None: "find_healthy k ns = None \<longleftrightarrow> (\<forall>n \<in> set ns. \<not> isHealthy n)"
  by (induction ns arbitrary: k) auto

lemma ghp_loop_healthy:
  assumes "cur < length ns"
    and "\<forall>j < length ns. isHealthy (ns ! j) \<longrightarrow> (\<exists>d < length ns - attempts. j = (cur + d) mod length ns)"
    and "attempts < length ns"
  shows "\<exists>r cur'. ghp_loop ns cur attempts = Inr (Some r, cur') \<and> r < length ns \<and> cur' < length ns \<and>
           (isHealthy (ns ! r) \<or> (\<forall>j < length ns. \<not> isHealthy (ns ! j)))"
  using assms
proof (induction ns cur attempts rule: ghp_loop.induct)
  case (1 ns cur attempts)
  let ?n = "length ns"
  have n: "0 < ?n" using "1.prems"(1) by (cases ns) auto
  show ?case
  proof (cases "isHealthy (ns ! cur)")
    case True
    with "1.prems" n show ?thesis by (simp add: Let_def)
  next
    case False
    have step: "\<forall>j < ?n. isHealthy (ns ! j) \<longrightarrow>
        (\<exists>d < ?n - (attempts + 1). j = ((cur + 1) mod ?n + d) mod ?n)"
    proof (intro allI impI)
      fix j assume j: "j < ?n" "isHealthy (ns ! j)"
      with "1.prems"(2) obtain d where d: "d < ?n - attempts" "j = (cur + d) mod ?n" by blast
      have "d \<noteq> 0"
      proof
        assume "d = 0"
        with d(2) "1.prems"(1) have "j = cur" by simp
        with j(2) False show False by simp
      qed
      then obtain d' where d': "d = Suc d'" by (cases d) auto
      have "j = ((cur + 1) mod ?n + d') mod ?n"
        using d d' by (simp add: mod_add_left_eq)
      moreover have "d' < ?n - (attempts + 1)" using d d' by simp
      ultimately show "\<exists>d < ?n - (attempts + 1). j = ((cur + 1) mod ?n + d) mod ?n" by blast
    qed
    show ?thesis
    proof (cases "attempts + 1 = ?n")
      case True
      from step True have none: "\<forall>j < ?n. \<not> isHealthy (ns ! j)" by auto
      then have "find_healthy 0 ns = None"
        by (auto simp: find_healthy_None in_set_conv_nth)
      with False True "1.prems" n none show ?thesis by (simp add: Let_def)
    next
      case ne: False
      have lt: "attempts + 1 < ?n" using ne "1.prems"(3) by simp
      have c: "(cur + 1) mod ?n < ?n" using n by simp
      from "1.IH" [OF "1.prems"(3) _ refl refl False ne c step lt] "1.prems"(1)
      obtain r cur' where "ghp_loop ns ((cur + 1) mod ?n) (attempts + 1) = Inr (Some r, cur')"
        "r < ?n" "cur' < ?n" "isHealthy (ns ! r) \<or> (\<forall>j < ?n. \<not> isHealthy (ns ! j))"
        by auto
      with False ne "1.prems" show ?thesis by (simp add: Let_def)
    qed
  qed
qed


lemma find_healthy_nth:
  "find_healthy 0 ns \<noteq> None \<longleftrightarrow> (\<exists>j < length ns. isHealthy (ns ! j))"
  unfolding find_healthy_None by (metis in_set_conv_nth)

lemma getHealthyProvider_selects_healthy:
  assumes "rpc_wf m"
  shows "\<exists>r m'. getHealthyProvider m = Inr (Some r, m') \<and> r < length (nodes m) \<and>
           nodes m' = nodes m \<and> rpc_wf m' \<and> (any_healthy m \<longrightarrow> isHealthy (nodes m ! r))"
proof -
  let ?ns = "nodes m" and ?c = "currentIndex m"
  let ?n = "length ?ns"
  have c: "?c < ?n" using assms by (simp add: rpc_wf_def)
  have pos: "0 < ?n" using c by (cases ?ns) auto
  have cover: "\<forall>j < ?n. isHealthy (?ns ! j) \<longrightarrow> (\<exists>d < ?n - 0. j = (?c + d) mod ?n)"
  proof (intro allI impI)
    fix j assume j: "j < ?n"
    have "(?c + (j + ?n - ?c) mod ?n) mod ?n = (?c + (j + ?n - ?c)) mod ?n"
      by (simp add: mod_add_right_eq)
    also have "\<dots> = (j + ?n) mod ?n" using c by simp
    also have "\<dots> = j" using j by simp
    finally have "j = (?c + (j + ?n - ?c) mod ?n) mod ?n" by simp
    moreover have "(j + ?n - ?c) mod ?n < ?n - 0" using pos mod_less_divisor [OF pos] by simp
    ultimately show "\<exists>d < ?n - 0. j = (?c + d) mod ?n" by blast
  qed
  from ghp_loop_healthy [OF c cover pos]
  obtain r cur' where r: "ghp_loop ?ns ?c 0 = Inr (Some r, cur')" "r < ?n" "cur' < ?n"
    "isHealthy (?ns ! r) \<or> (\<forall>j < ?n. \<not> isHealthy (?ns ! j))" by blast
  have "any_healthy m \<longrightarrow> isHealthy (?ns ! r)"
    using r(4) find_healthy_nth [of ?ns] unfolding any_healthy_def by blast
  with r assms show ?thesis
    by (simp add: getHealthyProvider_def rpc_wf_def)
qed
lemma executeWithLimiters_shape:
  assumes "rpc_wf m" "i < length (nodes m)"
  shows "rpc_wf (snd (executeWithLimiters cfg m i ok t)) \<and>
         length (nodes (snd (executeWithLimiters cfg m i ok t))) = length (nodes m)"
proof -
  have id: "node_id (nodes m ! i) = i"
    using assms by (metis rpc_wf_def nth_map nth_upt add_0)
  show ?thesis
    using assms id
    by (auto simp: executeWithLimiters_def markUnhealthy_def Let_def rpc_wf_def map_update
        list_update_same_conv)
qed

lemma executeWithLimiters_failure:
  assumes "rpc_wf m" "i < length (nodes m)"
  shows "failureCount (nodes (snd (executeWithLimiters cfg m i False t)) ! i)
           = failureCount (nodes m ! i) + 1 \<and>
         (2 \<le> failureCount (nodes m ! i) \<longrightarrow>
            \<not> isHealthy (nodes (snd (executeWithLimiters cfg m i False t)) ! i) \<and>
            (i, t + unhealthyTimeoutMs cfg) \<in> set (timers (snd (executeWithLimiters cfg m i False t)))) \<and>
         (failureCount (nodes m ! i) < 2 \<longrightarrow>
            isHealthy (nodes (snd (executeWithLimiters cfg m i False t)) ! i)
              = isHealthy (nodes m ! i))"
proof -
  have id: "node_id (nodes m ! i) = i"
    using assms by (metis rpc_wf_def nth_map nth_upt add_0)
  show ?thesis
    using assms id
    by (auto simp: executeWithLimiters_def markUnhealthy_def Let_def)
qed

lemma executeWithLimiters_keeps_unhealthy:
  assumes "j < length (nodes m)" "\<not> isHealthy (nodes m ! j)"
  shows "\<not> isHealthy (nodes (snd (executeWithLimiters cfg m i ok t)) ! j)"
  using assms
  by (cases "i = j")
     (auto simp: executeWithLimiters_def markUnhealthy_def Let_def nth_list_update)

lemma checkNodeHealth_start_nodes [simp]:
  "nodes (checkNodeHealth_start m k) = nodes m"
  "currentIndex (checkNodeHealth_start m k) = currentIndex m"
  by (simp_all add: checkNodeHealth_start_def)

lemma foldl_checkNodeHealth_start [simp]:
  "nodes (foldl checkNodeHealth_start m ks) = nodes m"
  "currentIndex (foldl checkNodeHealth_start m ks) = currentIndex m"
  by (induction ks arbitrary: m) simp_all

lemma rpc_step_wf:
  assumes "rpc_wf m"
  shows "rpc_wf (rpc_step cfg m ev) \<and> length (nodes (rpc_step cfg m ev)) = length (nodes m)"
proof (cases ev)
  case Select
  from getHealthyProvider_selects_healthy [OF assms] show ?thesis
    using Select by auto
next
  case (CallReturns i ok t)
  then show ?thesis using assms executeWithLimiters_shape [of m i cfg ok t] by simp
next
  case (TimerFires k t)
  then show ?thesis using assms by (simp add: timer_fires_def rpc_wf_def)
next
  case (ProbeReturns i ok t)
  have id: "i < length (nodes m) \<Longrightarrow> node_id (nodes m ! i) = i"
    using assms by (metis rpc_wf_def nth_map nth_upt add_0)
  show ?thesis
    using assms ProbeReturns id
    by (auto simp: checkNodeHealth_return_def rpc_wf_def Let_def map_update list_update_same_conv)
next
  case (HealthCheckTick t)
  then show ?thesis using assms by (simp add: healthCheck_tick_def rpc_wf_def)
qed

lemma rpc_step_keeps_unhealthy:
  assumes "rpc_wf m" "i < length (nodes m)" "\<not> isHealthy (nodes m ! i)" "\<not> restores i ev"
  shows "\<not> isHealthy (nodes (rpc_step cfg m ev) ! i)"
proof (cases ev)
  case Select
  from getHealthyProvider_selects_healthy [OF assms(1)] show ?thesis
    using Select assms(3) by auto
next
  case (CallReturns j ok t)
  then show ?thesis
    using assms executeWithLimiters_keeps_unhealthy [of i m cfg j ok t] by simp
next
  case (TimerFires k t)
  then show ?thesis using assms by (simp add: timer_fires_def)
next
  case (ProbeReturns j ok t)
  then show ?thesis
    using assms by (auto simp: checkNodeHealth_return_def Let_def nth_list_update)
next
  case (HealthCheckTick t)
  then show ?thesis using assms by (simp add: healthCheck_tick_def)
qed

lemma rpc_run_keeps_unhealthy:
  assumes "rpc_wf m" "i < length (nodes m)" "\<not> isHealthy (nodes m ! i)"
    "\<not> list_ex (restores i) events"
  shows "rpc_wf (rpc_run cfg m events) \<and> i < length (nodes (rpc_run cfg m events)) \<and>
         \<not> isHealthy (nodes (rpc_run cfg m events) ! i)"
  using assms
proof (induction events arbitrary: m)
  case Nil
  then show ?case by (simp add: rpc_run_def)
next
  case (Cons ev events)
  have wf: "rpc_wf (rpc_step cfg m ev)" and len: "i < length (nodes (rpc_step cfg m ev))"
    using rpc_step_wf [OF Cons.prems(1), of cfg ev] Cons.prems(2) by simp_all
  have un: "\<not> isHealthy (nodes (rpc_step cfg m ev) ! i)"
    using rpc_step_keeps_unhealthy [of m i ev cfg] Cons.prems by simp
  have rest: "\<not> list_ex (restores i) events" using Cons.prems(4) by simp
  from Cons.IH [OF wf len un rest] show ?case by (simp add: rpc_run_def)
qed

text \<open>
  Claim C6, amended. For every endpoint \<open>i\<close> of a well-formed manager: a successful call
  through the limiters leaves its failure counter at zero; three consecutive failed calls
  leave it marked unhealthy, and when they start from a healthy endpoint with a counter of
  zero the first two leave it healthy and the third schedules the probe for
  \<open>unhealthyTimeoutMs\<close> later; and once the endpoint is unhealthy, after any events among
  which no probe of it succeeds, the selection returns an endpoint, which is a healthy one,
  hence not \<open>i\<close>, whenever some endpoint is healthy.
\<close>

theorem rpc_failure_tracking:
  "rpc_wf m \<and> i < length (nodes m) \<longrightarrow>
     failureCount (nodes (snd (executeWithLimiters cfg m i True t)) ! i) = 0 \<and>
     (let m1 = snd (executeWithLimiters cfg m i False t1);
          m2 = snd (executeWithLimiters cfg m1 i False t2);
          m3 = snd (executeWithLimiters cfg m2 i False t3)
      in \<not> isHealthy (nodes m3 ! i) \<and>
         (isHealthy (nodes m ! i) \<and> failureCount (nodes m ! i) = 0 \<longrightarrow>
            isHealthy (nodes m1 ! i) \<and> isHealthy (nodes m2 ! i) \<and>
            (i, t3 + unhealthyTimeoutMs cfg) \<in> set (timers m3))) \<and>
     (\<not> isHealthy (nodes m ! i) \<and> \<not> list_ex (restores i) events \<and>
      any_healthy (rpc_run cfg m events) \<longrightarrow>
        (\<exists>r m'. getHealthyProvider (rpc_run cfg m events) = Inr (Some r, m') \<and> r \<noteq> i \<and>
                isHealthy (nodes (rpc_run cfg m events) ! r)))"
proof (intro impI)
  assume a: "rpc_wf m \<and> i < length (nodes m)"
  define m1 where "m1 = snd (executeWithLimiters cfg m i False t1)"
  define m2 where "m2 = snd (executeWithLimiters cfg m1 i False t2)"
  define m3 where "m3 = snd (executeWithLimiters cfg m2 i False t3)"
  have w1: "rpc_wf m1" "i < length (nodes m1)"
    using executeWithLimiters_shape [of m i cfg False t1] a by (simp_all add: m1_def)
  have w2: "rpc_wf m2" "i < length (nodes m2)"
    using executeWithLimiters_shape [of m1 i cfg False t2] w1 by (simp_all add: m2_def)
  have f1: "failureCount (nodes m1 ! i) = failureCount (nodes m ! i) + 1"
    "failureCount (nodes m ! i) < 2 \<longrightarrow> isHealthy (nodes m1 ! i) = isHealthy (nodes m ! i)"
    using executeWithLimiters_failure [of m i cfg t1] a by (simp_all add: m1_def)
  have f2: "failureCount (nodes m2 ! i) = failureCount (nodes m1 ! i) + 1"
    "failureCount (nodes m1 ! i) < 2 \<longrightarrow> isHealthy (nodes m2 ! i) = isHealthy (nodes m1 ! i)"
    using executeWithLimiters_failure [of m1 i cfg t2] w1 by (simp_all add: m2_def)
  have f3: "2 \<le> failureCount (nodes m2 ! i) \<longrightarrow>
      \<not> isHealthy (nodes m3 ! i) \<and> (i, t3 + unhealthyTimeoutMs cfg) \<in> set (timers m3)"
    using executeWithLimiters_failure [of m2 i cfg t3] w2 by (simp add: m3_def)
  have three: "\<not> isHealthy (nodes m3 ! i)" using f1(1) f2(1) f3 by simp
  have pin: "isHealthy (nodes m ! i) \<and> failureCount (nodes m ! i) = 0 \<longrightarrow>
      isHealthy (nodes m1 ! i) \<and> isHealthy (nodes m2 ! i) \<and>
      (i, t3 + unhealthyTimeoutMs cfg) \<in> set (timers m3)"
    using f1 f2 f3 by simp
  have ok: "failureCount (nodes (snd (executeWithLimiters cfg m i True t)) ! i) = 0"
    using a by (simp add: executeWithLimiters_def)
  have sel: "\<not> isHealthy (nodes m ! i) \<and> \<not> list_ex (restores i) events \<and>
      any_healthy (rpc_run cfg m events) \<longrightarrow>
        (\<exists>r m'. getHealthyProvider (rpc_run cfg m events) = Inr (Some r, m') \<and> r \<noteq> i \<and>
                isHealthy (nodes (rpc_run cfg m events) ! r))"
  proof (intro impI)
    assume h: "\<not> isHealthy (nodes m ! i) \<and> \<not> list_ex (restores i) events \<and>
      any_healthy (rpc_run cfg m events)"
    from rpc_run_keeps_unhealthy [of m i events cfg] a h
    have k: "rpc_wf (rpc_run cfg m events)" "\<not> isHealthy (nodes (rpc_run cfg m events) ! i)"
      by simp_all
    from getHealthyProvider_selects_healthy [OF k(1)] h
    obtain r m' where r: "getHealthyProvider (rpc_run cfg m events) = Inr (Some r, m')"
      "isHealthy (nodes (rpc_run cfg m events) ! r)" by blast
    with k(2) have "r \<noteq> i" by auto
    with r show "\<exists>r m'. getHealthyProvider (rpc_run cfg m events) = Inr (Some r, m') \<and> r \<noteq> i \<and>
                isHealthy (nodes (rpc_run cfg m events) ! r)" by blast
  qed
  from ok three pin sel
  show "failureCount (nodes (snd (executeWithLimiters cfg m i True t)) ! i) = 0 \<and>
     (let m1 = snd (executeWithLimiters cfg m i False t1);
          m2 = snd (executeWithLimiters cfg m1 i False t2);
          m3 = snd (executeWithLimiters cfg m2 i False t3)
      in \<not> isHealthy (nodes m3 ! i) \<and>
         (isHealthy (nodes m ! i) \<and> failureCount (nodes m ! i) = 0 \<longrightarrow>
            isHealthy (nodes m1 ! i) \<and> isHealthy (nodes m2 ! i) \<and>
            (i, t3 + unhealthyTimeoutMs cfg) \<in> set (timers m3))) \<and>
     (\<not> isHealthy (nodes m ! i) \<and> \<not> list_ex (restores i) events \<and>
      any_healthy (rpc_run cfg m events) \<longrightarrow>
        (\<exists>r m'. getHealthyProvider (rpc_run cfg m events) = Inr (Some r, m') \<and> r \<noteq> i \<and>
                isHealthy (nodes (rpc_run cfg m events) ! r)))"
    unfolding m3_def m2_def m1_def Let_def by blast
qed

lemma three_failures_run:
  "rpc_run example_settings (initializeNodes [''rpc1'', ''rpc2'']) three_failures
   = \<lparr>nodes = [\<lparr>node_id = 0, url = ''rpc1'', isHealthy = False, lastChecked = 1700000003000,
                 failureCount = 3\<rparr>,
               \<lparr>node_id = 1, url = ''rpc2'', isHealthy = True, lastChecked = 0,
                 failureCount = 0\<rparr>],
      currentIndex = 0, timers = [(0, 1700000033000)], probes = []\<rparr>"
  by code_simp

lemma probe_restores_run:
  "rpc_run example_settings (initializeNodes [''rpc1'', ''rpc2'']) (three_failures @ probe_restores)
   = \<lparr>nodes = [\<lparr>node_id = 0, url = ''rpc1'', isHealthy = True, lastChecked = 1700000003000,
                 failureCount = 3\<rparr>,
               \<lparr>node_id = 1, url = ''rpc2'', isHealthy = True, lastChecked = 0,
                 failureCount = 0\<rparr>],
      currentIndex = 0, timers = [], probes = []\<rparr>"
  by code_simp

text \<open>
  Claim C6 as stated fails once a probe has restored the endpoint. Endpoint 0 fails
  three calls in a row and is marked unhealthy; its timer fires 30 s later and the probe
  succeeds; the selection that follows returns endpoint 0 while endpoint 1 is healthy.
\<close>

theorem rpc_restored_endpoint_counterexample:
  "\<not> isHealthy (nodes (rpc_run example_settings (initializeNodes [''rpc1'', ''rpc2''])
                        three_failures) ! 0) \<and>
   isHealthy (nodes (rpc_run example_settings (initializeNodes [''rpc1'', ''rpc2''])
                      (three_failures @ probe_restores)) ! 1) \<and>
   getHealthyProvider (rpc_run example_settings (initializeNodes [''rpc1'', ''rpc2''])
                         (three_failures @ probe_restores))
     = Inr (Some 0, (rpc_run example_settings (initializeNodes [''rpc1'', ''rpc2''])
                       (three_failures @ probe_restores))\<lparr>currentIndex := 1\<rparr>)"
  unfolding three_failures_run probe_restores_run
  by (simp add: getHealthyProvider_def)

theorem rpc_failure_tracking_witness:
  "rpc_wf (initializeNodes [''rpc1'', ''rpc2''])
   \<and> failureCount (nodes (snd (executeWithLimiters example_settings
        (initializeNodes [''rpc1'', ''rpc2'']) 0 True 1700000000500)) ! 0) = 0
   \<and> isHealthy (nodes (snd (executeWithLimiters example_settings
        (initializeNodes [''rpc1'', ''rpc2'']) 0 False 1700000001000)) ! 0)
   \<and> isHealthy (nodes (snd (executeWithLimiters example_settings
        (snd (executeWithLimiters example_settings
           (initializeNodes [''rpc1'', ''rpc2'']) 0 False 1700000001000)) 0 False 1700000002000)) ! 0)
   \<and> \<not> isHealthy (nodes (snd (executeWithLimiters example_settings
        (snd (executeWithLimiters example_settings
           (snd (executeWithLimiters example_settings
              (initializeNodes [''rpc1'', ''rpc2'']) 0 False 1700000001000)) 0 False 1700000002000))
        0 False 1700000003000)) ! 0)
   \<and> any_healthy (rpc_run example_settings
        (rpc_run example_settings (initializeNodes [''rpc1'', ''rpc2'']) three_failures)
        [HealthCheckTick 1700000004000, TimerFires 0 1700000033000,
         ProbeReturns 0 False 1700000033050])
   \<and> (\<exists>m'. getHealthyProvider (rpc_run example_settings
        (rpc_run example_settings (initializeNodes [''rpc1'', ''rpc2'']) three_failures)
        [HealthCheckTick 1700000004000, TimerFires 0 1700000033000,
         ProbeReturns 0 False 1700000033050])
          = Inr (Some 1, m'))"
proof -
  let ?m0 = "initializeNodes [''rpc1'', ''rpc2'']"
  let ?m3 = "rpc_run example_settings ?m0 three_failures"
  let ?evs = "[HealthCheckTick 1700000004000, TimerFires 0 1700000033000,
              ProbeReturns 0 False 1700000033050]"
  have wf0: "rpc_wf ?m0" by (simp add: rpc_wf_def initializeNodes_def upt_rec)
  have len0: "0 < length (nodes ?m0)" by (simp add: initializeNodes_def)
  have h0: "isHealthy (nodes ?m0 ! 0) \<and> failureCount (nodes ?m0 ! 0) = 0"
    by (simp add: initializeNodes_def upt_rec)
  have wf3: "rpc_wf ?m3" unfolding three_failures_run by (simp add: rpc_wf_def upt_rec)
  have len3: "0 < length (nodes ?m3)" unfolding three_failures_run by simp
  have un3: "\<not> isHealthy (nodes ?m3 ! 0)" unfolding three_failures_run by simp
  have nr: "\<not> list_ex (restores 0) ?evs" by simp
  have run: "rpc_run example_settings ?m3 ?evs
      = \<lparr>nodes = [\<lparr>node_id = 0, url = ''rpc1'', isHealthy = False, lastChecked = 1700000003000,
                    failureCount = 3\<rparr>,
                  \<lparr>node_id = 1, url = ''rpc2'', isHealthy = True, lastChecked = 0,
                    failureCount = 0\<rparr>],
         currentIndex = 0, timers = [(0, 1700000063050)], probes = []\<rparr>"
    by code_simp
  have any: "any_healthy (rpc_run example_settings ?m3 ?evs)"
    unfolding run by (simp add: any_healthy_def)
  have sel1: "\<exists>m'. getHealthyProvider (rpc_run example_settings ?m3 ?evs) = Inr (Some 1, m')"
    unfolding run by (simp add: getHealthyProvider_def)
  from rpc_failure_tracking [of ?m0 0 example_settings 1700000000500 1700000001000 1700000002000
         1700000003000 "[]"] wf0 len0 h0
  have first: "failureCount (nodes (snd (executeWithLimiters example_settings ?m0 0 True 1700000000500)) ! 0) = 0"
    "isHealthy (nodes (snd (executeWithLimiters example_settings ?m0 0 False 1700000001000)) ! 0)"
    "isHealthy (nodes (snd (executeWithLimiters example_settings
        (snd (executeWithLimiters example_settings ?m0 0 False 1700000001000)) 0 False 1700000002000)) ! 0)"
    "\<not> isHealthy (nodes (snd (executeWithLimiters example_settings
        (snd (executeWithLimiters example_settings
           (snd (executeWithLimiters example_settings ?m0 0 False 1700000001000)) 0 False 1700000002000))
        0 False 1700000003000)) ! 0)"
    by (simp_all add: Let_def)
  from rpc_failure_tracking [of ?m3 0 example_settings 0 0 0 0 ?evs] wf3 len3 un3 nr any
  have "\<exists>r m'. getHealthyProvider (rpc_run example_settings ?m3 ?evs) = Inr (Some r, m') \<and> r \<noteq> 0"
    by blast
  with wf0 first any sel1 show ?thesis by blast
qed

subsection \<open>Z-Score Engine: trading signal\<close>

lemma sample_variance_replicate: "sample_variance (replicate n c) = 0"
  by (cases "n = 0") (simp_all add: sample_variance_def sum_list_replicate)

lemma flat_ratios:
  "getHistoricalRatios flat_pricesA flat_pricesB = replicate 100 (decimal 1 1)"
  by code_simp

lemma flat_stdDev:
  "map_option zo_stdDev
     (calculateZScore None flat_pair (Some (number_of_int 1)) (Some (number_of_int 5))
        flat_pricesA flat_pricesB (number_of_int 100)) = Some (Double 7 (- 55))"
  by code_simp

lemma flat_signal:
  "getTradingSignal None flat_pair (Some (number_of_int 1)) (Some (number_of_int 5))
       flat_pricesA flat_pricesB (number_of_int 100) (number_of_int 2) (decimal 5 1)
     = \<lparr>signal = SHORT_A_LONG_B, confidence = Double 1 0\<rparr>"
  by code_simp

text \<open>
  Claim C7, at a flat history. The pair's 100 historical ratios all equal the double
  nearest to 0.1, so their sample variance, and with it the sample standard deviation,
  is zero. \<open>calculateZScore\<close> sums them to a mean just below that double, finds a
  standard deviation of \<open>7 * 2 ^ -55\<close>, which is not \<open>=== 0\<close>, and returns a z-score; with
  the current ratio 0.2 the signal is \<open>SHORT_A_LONG_B\<close> with confidence 1, not \<open>HOLD\<close>
  with confidence 0.
\<close>

theorem flat_history_signal:
  "sample_variance (map double_rat (getHistoricalRatios flat_pricesA flat_pricesB)) = 0 \<and>
   map_option zo_stdDev
     (calculateZScore None flat_pair (Some (number_of_int 1)) (Some (number_of_int 5))
        flat_pricesA flat_pricesB (number_of_int 100)) = Some (Double 7 (- 55)) \<and>
   getTradingSignal None flat_pair (Some (number_of_int 1)) (Some (number_of_int 5))
       flat_pricesA flat_pricesB (number_of_int 100) (number_of_int 2) (decimal 5 1)
     = \<lparr>signal = SHORT_A_LONG_B, confidence = Double 1 0\<rparr>"
  using flat_ratios flat_stdDev flat_signal
  by (simp add: sample_variance_replicate)

subsection \<open>Profit Accountant: simulation\<close>

lemma performLocalSimulation_result:
  "performLocalSimulation opp env = Inr s \<Longrightarrow>
     \<exists>profit gasCost.
        profitDetails s = Some profit \<and> gasCostUSD s = Some gasCost \<and>
        netProfitUSD s = Some (number_sub (number_sub (grossProfitUSD profit) gasCost)
                                 (flashLoanCostUSD profit)) \<and>
        success s = number_gt (number_sub (number_sub (grossProfitUSD profit) gasCost)
                                 (flashLoanCostUSD profit)) (number_of_int 0) \<and>
        netProfitPercent s = None"
  by (auto simp: performLocalSimulation_def Let_def split: sum.splits)

lemma simulation_failed_fields [simp]:
  "success (simulation_failed e) = False"
  "netProfitUSD (simulation_failed e) = None"
  "netProfitPercent (simulation_failed e) = None"
  by (simp_all add: simulation_failed_def)

lemma performTenderlySimulation_throws: "\<exists>e. performTenderlySimulation opp env = Inl e"
  by (simp add: performTenderlySimulation_def split: sum.splits)

lemma simulateTransaction_cases:
  "(\<exists>e. simulateTransaction opp env = simulation_failed e) \<or>
   performLocalSimulation opp env = Inr (simulateTransaction opp env)"
proof -
  from performTenderlySimulation_throws [of opp env]
  obtain e where "performTenderlySimulation opp env = Inl e" by blast
  then show ?thesis
    by (cases "performLocalSimulation opp env") (auto simp: simulateTransaction_def)
qed

lemma simulateTransaction_no_netProfitPercent:
  "netProfitPercent (simulateTransaction opp env) = None"
  using simulateTransaction_cases [of opp env] performLocalSimulation_result [of opp env]
  by auto

lemma simulateTransaction_mode:
  "simulateTransaction opp (env\<lparr>testMode := a\<rparr>) = simulateTransaction opp (env\<lparr>testMode := b\<rparr>)"
proof -
  have t: "performTenderlySimulation opp (env\<lparr>testMode := x\<rparr>) = performTenderlySimulation opp env"
    for x
    by (simp add: performTenderlySimulation_def buildTenderlySimulationPayload_def)
  have u: "calculateUSDValue (env\<lparr>testMode := x\<rparr>) = calculateUSDValue env" for x
    by (simp add: calculateUSDValue_def fun_eq_iff split: option.splits)
  have f: "calculateFlashLoanCost (env\<lparr>testMode := x\<rparr>) = calculateFlashLoanCost env" for x
    by (simp add: calculateFlashLoanCost_def fun_eq_iff u split: option.splits)
  have b: "calculateSlippageBuffer (env\<lparr>testMode := x\<rparr>) = calculateSlippageBuffer env" for x
    by (simp add: calculateSlippageBuffer_def fun_eq_iff u)
  have p: "calculateExpectedProfit (env\<lparr>testMode := x\<rparr>) opp = calculateExpectedProfit env opp"
    for x
    by (simp add: calculateExpectedProfit_def u f b)
  have l: "performLocalSimulation opp (env\<lparr>testMode := x\<rparr>) = performLocalSimulation opp env"
    for x
    by (simp add: performLocalSimulation_def p Let_def cong: sum.case_cong)
  from performTenderlySimulation_throws [of opp env]
  obtain e where "performTenderlySimulation opp env = Inl e" by blast
  then show ?thesis by (simp add: simulateTransaction_def t l)
qed

text \<open>
  Claim C3. \<open>simulateTransaction\<close> reports success exactly when the report carries a net
  profit that is greater than 0; a net profit it carries is the gross profit minus the gas
  cost minus the flash-loan cost of the same report, as JavaScript subtracts them. This
  holds in test mode and outside it alike: the remote path never returns a report, it
  throws on every input, so outside test mode the report is again the local one.
\<close>

theorem simulation_success_iff_profit:
  "success (simulateTransaction opp env)
     = (\<exists>net. netProfitUSD (simulateTransaction opp env) = Some net \<and>
              number_gt net (number_of_int 0)) \<and>
   (netProfitUSD (simulateTransaction opp env) = Some net \<longrightarrow>
      (\<exists>profit gasCost.
          profitDetails (simulateTransaction opp env) = Some profit \<and>
          gasCostUSD (simulateTransaction opp env) = Some gasCost \<and>
          net = number_sub (number_sub (grossProfitUSD profit) gasCost)
                  (flashLoanCostUSD profit))) \<and>
   (\<exists>e. performTenderlySimulation opp env = Inl e) \<and>
   simulateTransaction opp (env\<lparr>testMode := False\<rparr>)
     = simulateTransaction opp (env\<lparr>testMode := True\<rparr>)"
proof -
  let ?s = "simulateTransaction opp env"
  have a: "success ?s = (\<exists>net. netProfitUSD ?s = Some net \<and> number_gt net (number_of_int 0))"
    using simulateTransaction_cases [of opp env] performLocalSimulation_result [of opp env ?s]
    by auto
  have b: "netProfitUSD ?s = Some net \<longrightarrow>
      (\<exists>profit gasCost. profitDetails ?s = Some profit \<and> gasCostUSD ?s = Some gasCost \<and>
          net = number_sub (number_sub (grossProfitUSD profit) gasCost)
                  (flashLoanCostUSD profit))"
    using simulateTransaction_cases [of opp env] performLocalSimulation_result [of opp env ?s]
    by auto
  from a b performTenderlySimulation_throws [of opp env]
    simulateTransaction_mode [of opp False env True]
  show ?thesis by blast
qed

lemma example_simulation:
  "simulateTransaction example_opportunity example_sim_env
   = \<lparr>success = True, sim_error = None, gasUsed = Some 300000,
      gasCostUSD = Some (Double 7782220156096217 (- 57)),
      netProfitUSD = Some (Double 3181793136737255 (- 50)),
      profitDetails =
        Some \<lparr>grossProfitUSD = Double 9 (- 1),
              flashLoanCostUSD = Double 7295831396340203 (- 52),
              slippageBufferUSD = Double 4897664594765415 (- 53),
              inputValueUSD = Double 225 3, outputValueUSD = Double 3609 (- 1)\<rparr>,
      netProfitPercent = None\<rparr>"
  by code_simp

lemma example_net_positive: "number_gt (Double 3181793136737255 (- 50)) (number_of_int 0)"
  by code_simp

theorem simulation_success_iff_profit_witness:
  "netProfitUSD (simulateTransaction example_opportunity example_sim_env)
     = Some (Double 3181793136737255 (- 50)) \<and>
   number_gt (Double 3181793136737255 (- 50)) (number_of_int 0) \<and>
   success (simulateTransaction example_opportunity example_sim_env) \<and>
   profitDetails (simulateTransaction example_opportunity example_sim_env)
     = Some \<lparr>grossProfitUSD = Double 9 (- 1),
             flashLoanCostUSD = Double 7295831396340203 (- 52),
             slippageBufferUSD = Double 4897664594765415 (- 53),
             inputValueUSD = Double 225 3, outputValueUSD = Double 3609 (- 1)\<rparr> \<and>
   gasCostUSD (simulateTransaction example_opportunity example_sim_env)
     = Some (Double 7782220156096217 (- 57)) \<and>
   Double 3181793136737255 (- 50)
     = number_sub (number_sub (Double 9 (- 1)) (Double 7782220156096217 (- 57)))
         (Double 7295831396340203 (- 52)) \<and>
   simulateTransaction example_opportunity (example_sim_env\<lparr>testMode := True\<rparr>)
     = simulateTransaction example_opportunity (example_sim_env\<lparr>testMode := False\<rparr>)"
proof -
  have n: "netProfitUSD (simulateTransaction example_opportunity example_sim_env)
      = Some (Double 3181793136737255 (- 50))"
    by (simp add: example_simulation)
  from simulation_success_iff_profit
         [of example_opportunity example_sim_env "Double 3181793136737255 (- 50)"]
    n example_net_positive
  have s: "success (simulateTransaction example_opportunity example_sim_env)"
    and d: "\<exists>profit gasCost.
          profitDetails (simulateTransaction example_opportunity example_sim_env) = Some profit \<and>
          gasCostUSD (simulateTransaction example_opportunity example_sim_env) = Some gasCost \<and>
          Double 3181793136737255 (- 50)
            = number_sub (number_sub (grossProfitUSD profit) gasCost) (flashLoanCostUSD profit)"
    and m: "simulateTransaction example_opportunity (example_sim_env\<lparr>testMode := False\<rparr>)
      = simulateTransaction example_opportunity (example_sim_env\<lparr>testMode := True\<rparr>)"
    by blast+
  from d have e: "Double 3181793136737255 (- 50)
     = number_sub (number_sub (Double 9 (- 1)) (Double 7782220156096217 (- 57)))
         (Double 7295831396340203 (- 52))"
    by (simp add: example_simulation)
  from n example_net_positive s e m show ?thesis by (simp add: example_simulation)
qed

subsection \<open>Orchestrator: evaluation and execution\<close>

lemma logOpportunity_throws: "logOpportunity gross net None gasCost slippageBuffer = Inl TypeError"
  by (simp add: logOpportunity_def split: option.splits)

lemma evaluateOpportunity_never_true: "\<not> returns_true (evaluateOpportunity cfg c)"
  by (simp add: evaluateOpportunity_def Let_def simulateTransaction_no_netProfitPercent
      logOpportunity_throws split: sum.splits)

lemma process_candidates_empty: "process_candidates cfg isAddress cs = []"
  by (induction cs) (simp_all add: evaluateOpportunity_never_true)

text \<open>
  Claim C10. No evaluation returns \<open>true\<close>, so the loop of a scan cycle hands no candidate
  to \<open>executeOpportunity\<close>, and the scan cycle itself stops with a TypeError at its gas
  check before the loop. A candidate whose simulated net profit is not below 1.5 times the
  threshold goes on to \<open>Logger.logOpportunity\<close>, which throws on the \<open>netProfitPercent\<close>
  just copied from the simulation, and the \<open>catch\<close> returns \<open>false\<close>. So no opportunity
  below the margin is executed. The margin check itself stands before the logger and
  applies to every candidate that reaches it: when the gates before it are passed and the
  simulation succeeds with a net profit below 1.5 times the threshold, the evaluation ends
  there.
\<close>

theorem executed_only_above_margin:
  "\<not> returns_true (evaluateOpportunity cfg c) \<and>
   process_candidates cfg isAddress candidates = [] \<and>
   scanCycle cfg isAddress decision opportunities = Inl TypeError \<and>
   (calculateNetProfit cfg (profit_env c) (c_opportunity c) = Inr profitable \<and>
    meetsThreshold profitable \<and> mevSafe c = Inr True \<and> gasPriceGwei c = Inr g \<and>
    \<not> number_gt g (maxGasPriceGwei cfg) \<and>
    success (simulateTransaction (c_opportunity c) (simulation_env c)) \<and>
    netProfitUSD (simulateTransaction (c_opportunity c) (simulation_env c)) = Some n \<and>
    number_lt n (number_mul (minProfitThresholdUSD cfg) (decimal 15 1))
    \<longrightarrow> evaluateOpportunity cfg c = BorderlineProfit)"
proof (intro conjI impI)
  show "\<not> returns_true (evaluateOpportunity cfg c)"
    by (rule evaluateOpportunity_never_true)
next
  show "process_candidates cfg isAddress candidates = []"
    by (rule process_candidates_empty)
next
  show "scanCycle cfg isAddress decision opportunities = Inl TypeError"
    by (simp add: scanCycle_def shouldWaitForBetterGas_def)
next
  assume "calculateNetProfit cfg (profit_env c) (c_opportunity c) = Inr profitable \<and>
    meetsThreshold profitable \<and> mevSafe c = Inr True \<and> gasPriceGwei c = Inr g \<and>
    \<not> number_gt g (maxGasPriceGwei cfg) \<and>
    success (simulateTransaction (c_opportunity c) (simulation_env c)) \<and>
    netProfitUSD (simulateTransaction (c_opportunity c) (simulation_env c)) = Some n \<and>
    number_lt n (number_mul (minProfitThresholdUSD cfg) (decimal 15 1))"
  then show "evaluateOpportunity cfg c = BorderlineProfit"
    by (simp add: evaluateOpportunity_def below_margin_def Let_def)
qed

lemma example_net_profit:
  "calculateNetProfit example_config (profit_env example_candidate)
     (c_opportunity example_candidate)
   = Inr \<lparr>pb_netProfitUSD = Double 2435524160483827 (- 50), meetsThreshold = True\<rparr>"
  by code_simp

lemma example_gas_price:
  "\<not> number_gt (decimal 5 2) (maxGasPriceGwei example_config)"
  by code_simp

lemma example_below_margin:
  "number_lt (Double 3181793136737255 (- 50))
     (number_mul (minProfitThresholdUSD example_config) (decimal 15 1))"
  by code_simp

theorem executed_only_above_margin_witness:
  "calculateNetProfit example_config (profit_env example_candidate)
     (c_opportunity example_candidate)
     = Inr \<lparr>pb_netProfitUSD = Double 2435524160483827 (- 50), meetsThreshold = True\<rparr> \<and>
   mevSafe example_candidate = Inr True \<and>
   gasPriceGwei example_candidate = Inr (decimal 5 2) \<and>
   \<not> number_gt (decimal 5 2) (maxGasPriceGwei example_config) \<and>
   success (simulateTransaction (c_opportunity example_candidate)
              (simulation_env example_candidate)) \<and>
   netProfitUSD (simulateTransaction (c_opportunity example_candidate)
                   (simulation_env example_candidate))
     = Some (Double 3181793136737255 (- 50)) \<and>
   number_lt (Double 3181793136737255 (- 50))
     (number_mul (minProfitThresholdUSD example_config) (decimal 15 1)) \<and>
   evaluateOpportunity example_config example_candidate = BorderlineProfit \<and>
   \<not> returns_true (evaluateOpportunity example_config example_candidate) \<and>
   process_candidates example_config (\<lambda>a. True) [example_candidate] = []"
proof -
  have m: "mevSafe example_candidate = Inr True"
    "gasPriceGwei example_candidate = Inr (decimal 5 2)"
    by (simp_all add: example_candidate_def)
  have s: "simulateTransaction (c_opportunity example_candidate)
             (simulation_env example_candidate)
           = simulateTransaction example_opportunity example_sim_env"
    by (simp add: example_candidate_def)
  have ok: "success (simulateTransaction (c_opportunity example_candidate)
                       (simulation_env example_candidate))"
    "netProfitUSD (simulateTransaction (c_opportunity example_candidate)
                     (simulation_env example_candidate))
       = Some (Double 3181793136737255 (- 50))"
    unfolding s by (simp_all add: example_simulation)
  have mt: "meetsThreshold \<lparr>pb_netProfitUSD = Double 2435524160483827 (- 50),
                             meetsThreshold = True\<rparr>" by simp
  from executed_only_above_margin
         [of example_config example_candidate "\<lambda>a. True" "[example_candidate]" False "[]"
             "\<lparr>pb_netProfitUSD = Double 2435524160483827 (- 50), meetsThreshold = True\<rparr>"
             "decimal 5 2" "Double 3181793136737255 (- 50)"]
    example_net_profit mt m example_gas_price ok example_below_margin
  have "\<not> returns_true (evaluateOpportunity example_config example_candidate)"
    "process_candidates example_config (\<lambda>a. True) [example_candidate] = []"
    "evaluateOpportunity example_config example_candidate = BorderlineProfit"
    by blast+
  with example_net_profit m example_gas_price ok example_below_margin show ?thesis by blast
qed

subsection \<open>Opportunity Scanner: validation\<close>

lemma simulateOpportunity_no_profitPercent:
  "js_get (simulateOpportunity fee opp) ''profitPercent'' = Undefined"
  by (simp add: simulateOpportunity_def simulation_error_def js_get_def Let_def
      split: sum.splits option.splits)

lemma validateOpportunities_nothing: "validateOpportunities xs = []"
  by (induction xs) (auto simp: simulateOpportunity_no_profitPercent Let_def)

text \<open>
  Claim C5 fails on the code. The simulation object has the properties \<open>success\<close>,
  \<open>profitUSD\<close>, \<open>gasCostUSD\<close>, \<open>netProfitUSD\<close>, \<open>netProfitPercent\<close> and \<open>gasUsed\<close>, and no
  \<open>profitPercent\<close>; the filter compares \<open>undefined\<close> with 0.05 and keeps nothing
  (\<open>validateOpportunities_nothing\<close>). Here a triangular opportunity with a profit of
  0.2 percent simulates successfully with a net profit of 0.19 percent, and is dropped.
\<close>

theorem validateOpportunities_drops_profitable:
  "js_get (simulateOpportunity (Inr (Some 1000000000))
             \<lparr>opp_type = ''triangular'',
              path = [\<lparr>fromToken = ''WETH'', toToken = ''USDC'', amount = 1000000000000000000,
                       outputAmount = 1825000000, dex = Some ''Aerodrome'', aggregator = None,
                       hop_gasEstimate = None\<rparr>,
                      \<lparr>fromToken = ''USDC'', toToken = ''WETH'', amount = 1825000000,
                       outputAmount = 1002000000000000000, dex = Some ''Aerodrome'',
                       aggregator = None, hop_gasEstimate = None\<rparr>],
              opp_amount = 1000000000000000000, expectedProfit = 2000000000000000,
              profitPercent = 0.2\<rparr>) ''success'' = JBool True
   \<and> js_get (simulateOpportunity (Inr (Some 1000000000))
             \<lparr>opp_type = ''triangular'',
              path = [\<lparr>fromToken = ''WETH'', toToken = ''USDC'', amount = 1000000000000000000,
                       outputAmount = 1825000000, dex = Some ''Aerodrome'', aggregator = None,
                       hop_gasEstimate = None\<rparr>,
                      \<lparr>fromToken = ''USDC'', toToken = ''WETH'', amount = 1825000000,
                       outputAmount = 1002000000000000000, dex = Some ''Aerodrome'',
                       aggregator = None, hop_gasEstimate = None\<rparr>],
              opp_amount = 1000000000000000000, expectedProfit = 2000000000000000,
              profitPercent = 0.2\<rparr>) ''netProfitPercent'' = Num (19 / 100)
   \<and> validateOpportunities
        [(\<lparr>opp_type = ''triangular'',
              path = [\<lparr>fromToken = ''WETH'', toToken = ''USDC'', amount = 1000000000000000000,
                       outputAmount = 1825000000, dex = Some ''Aerodrome'', aggregator = None,
                       hop_gasEstimate = None\<rparr>,
                      \<lparr>fromToken = ''USDC'', toToken = ''WETH'', amount = 1825000000,
                       outputAmount = 1002000000000000000, dex = Some ''Aerodrome'',
                       aggregator = None, hop_gasEstimate = None\<rparr>],
              opp_amount = 1000000000000000000, expectedProfit = 2000000000000000,
              profitPercent = 0.2\<rparr>, Inr (Some 1000000000))] = []"
  by (simp add: simulateOpportunity_def js_get_def to_BigInt_def js_divide_def Let_def)

subsection \<open>Opportunity Scanner: closed cycles\<close>













end
